theory Spec2Isabelle
  imports Main "HOL-Library.Word" "HOL-Library.Monad_Syntax" "HOL-Library.AList"
    "HOL-Library.Char_ord" "HOL-Library.List_Lexorder" "HOL-Library.Multiset"
begin

section \<open>The proof backend's circuit gates\<close>

text \<open>
  The compliance circuits are written against gnark's \<^verbatim>\<open>frontend.API\<close>. The gates are
  external to the repository; they are modelled by the value each gate computes on a
  satisfying assignment, in the scalar field of BN254. A field element is an \<open>int\<close>
  in \<open>0 ..< fr_modulus\<close>; the constant \<open>-1\<close> is \<open>fr_modulus - 1\<close>.
\<close>

definition fr_modulus :: int where
  "fr_modulus = 21888242871839275222246405745257275088548364400416034343698204186575808495617"

definition api_Add :: "int \<Rightarrow> int \<Rightarrow> int" where
  "api_Add a b = (a + b) mod fr_modulus"

definition api_Sub :: "int \<Rightarrow> int \<Rightarrow> int" where
  "api_Sub a b = (a - b) mod fr_modulus"

text \<open>\<^verbatim>\<open>api.Cmp(a, b)\<close>: 1 if \<open>a > b\<close>, 0 if \<open>a = b\<close>, -1 if \<open>a < b\<close>, comparing the
  canonical representatives.\<close>

definition api_Cmp :: "int \<Rightarrow> int \<Rightarrow> int" where
  "api_Cmp a b =
     (if a mod fr_modulus < b mod fr_modulus then (- 1) mod fr_modulus
      else if a mod fr_modulus = b mod fr_modulus then 0
      else 1)"

text \<open>\<^verbatim>\<open>api.IsZero(a)\<close>: 1 if \<open>a\<close> is zero in the field, 0 otherwise.\<close>

definition api_IsZero :: "int \<Rightarrow> int" where
  "api_IsZero a = (if a mod fr_modulus = 0 then 1 else 0)"

text \<open>\<^verbatim>\<open>api.And(a, b)\<close> on boolean operands is their product.\<close>

definition api_And :: "int \<Rightarrow> int \<Rightarrow> int" where
  "api_And a b = (a * b) mod fr_modulus"

text \<open>\<^verbatim>\<open>api.Select(c, a, b)\<close>: \<open>a\<close> if the boolean \<open>c\<close> is 1, else \<open>b\<close>.\<close>

definition api_Select :: "int \<Rightarrow> int \<Rightarrow> int \<Rightarrow> int" where
  "api_Select c a b = (if c mod fr_modulus = 1 then a mod fr_modulus else b mod fr_modulus)"

section \<open>The area-membership sub-circuit\<close>

record Fr_Location =
  X :: int
  Y :: int

record Fr_SquareArea =
  topLeft :: Fr_Location
  bottomRight :: Fr_Location

text \<open>\<^verbatim>\<open>InArea\<close> of the transformations package, gate by gate.\<close>

definition InArea :: "int \<Rightarrow> int \<Rightarrow> Fr_SquareArea \<Rightarrow> int" where
  "InArea x y area =
     (let inCropAreaX =
            api_And
              (api_And
                 (api_IsZero (api_Cmp (X (topLeft area)) x))
                 (api_IsZero (api_Cmp x (X (bottomRight area)))))
              (api_And
                 (api_IsZero (api_Add (api_Cmp (X (topLeft area)) x) 1))
                 (api_IsZero (api_Add (api_Cmp x (X (bottomRight area))) 1)));
          inCropAreaY =
            api_And
              (api_And
                 (api_IsZero (api_Cmp (Y (topLeft area)) y))
                 (api_IsZero (api_Cmp y (Y (bottomRight area)))))
              (api_And
                 (api_IsZero (api_Add (api_Cmp (Y (topLeft area)) y) 1))
                 (api_IsZero (api_Add (api_Cmp y (Y (bottomRight area))) 1)));
          inCropArea = api_And inCropAreaX inCropAreaY
      in inCropArea)"


section \<open>Images\<close>

text \<open>Package \<^verbatim>\<open>image\<close>: the constant \<^verbatim>\<open>N\<close>, the side of the pixel grid.\<close>

definition image_N :: nat where
  "image_N = 16"

record RGBPixel =
  R :: "8 word"
  G :: "8 word"
  B :: "8 word"

text \<open>Values of the metadata map \<^verbatim>\<open>map[string]interface{}\<close>: the repository stores
  integers and strings.\<close>

datatype meta_value = MInt int | MString string

text \<open>
  The struct \<^verbatim>\<open>I\<close>. A Go array \<^verbatim>\<open>[N][N]RGBPixel\<close> is a function of the two indices;
  the code only reads and writes indices below \<open>image_N\<close>, and an access outside
  panics, which the operations below return as \<open>None\<close>. The metadata map is the list of
  its entries in the order an iteration happens to visit them (keys distinct); a nil
  map is \<open>None\<close>.
\<close>

record I =
  Pixels :: "nat \<Rightarrow> nat \<Rightarrow> RGBPixel"
  M :: "(string \<times> meta_value) list option"

text \<open>A Go \<^verbatim>\<open>error\<close> is its message; a \<^verbatim>\<open>[]byte\<close> is a list of 8-bit characters
  (nil and empty are both \<open>[]\<close>).\<close>

type_synonym error = string
type_synonym bytes = string

definition zero_RGBPixel :: RGBPixel where
  "zero_RGBPixel = \<lparr>R = 0, G = 0, B = 0\<rparr>"

text \<open>\<^verbatim>\<open>NewImage\<close> and \<^verbatim>\<open>AllWhiteImage\<close> (the version whose \<^verbatim>\<open>Crop\<close> translates).\<close>

definition NewImage :: I where
  "NewImage = \<lparr>Pixels = (\<lambda>y x. zero_RGBPixel), M = Some []\<rparr>"

definition SetPixel :: "I \<Rightarrow> int \<Rightarrow> int \<Rightarrow> RGBPixel \<Rightarrow> I" where
  "SetPixel img x y color =
     (if x \<ge> 0 \<and> x < int image_N \<and> y \<ge> 0 \<and> y < int image_N
      then img\<lparr>Pixels := (Pixels img)(nat y := (Pixels img (nat y))(nat x := color))\<rparr>
      else img)"

definition GetPixel :: "I \<Rightarrow> int \<Rightarrow> int \<Rightarrow> RGBPixel" where
  "GetPixel img x y =
     (if x \<ge> 0 \<and> x < int image_N \<and> y \<ge> 0 \<and> y < int image_N
      then Pixels img (nat y) (nat x)
      else zero_RGBPixel)"

definition meta_set :: "string \<Rightarrow> meta_value \<Rightarrow> I \<Rightarrow> I" where
  \<comment> \<open>\<^verbatim>\<open>img.M[k] = v\<close> on a non-nil map\<close>
  "meta_set k v img = img\<lparr>M := map_option (AList.update k v) (M img)\<rparr>"

definition AllWhiteImage :: I where
  "AllWhiteImage =
     (let img = fold (\<lambda>x. fold (\<lambda>y img. SetPixel img (int x) (int y) \<lparr>R = 255, G = 255, B = 255\<rparr>)
                                 [0..<image_N])
                     [0..<image_N] NewImage
      in meta_set ''width'' (MInt (int image_N))
           (meta_set ''height'' (MInt (int image_N))
             (meta_set ''N'' (MInt (int image_N))
               (meta_set ''Author'' (MString ''John Doe'') img))))"

text \<open>A loop whose body may panic: the first panic ends it.\<close>

primrec for_each :: "('a \<Rightarrow> 's \<Rightarrow> 's option) \<Rightarrow> 'a list \<Rightarrow> 's \<Rightarrow> 's option" where
  "for_each body [] s = Some s"
| "for_each body (a # as) s =
     (case body a s of None \<Rightarrow> None | Some s' \<Rightarrow> for_each body as s')"

text \<open>\<^verbatim>\<open>dst[dy][dx] = src[sy][sx]\<close> on \<^verbatim>\<open>[N][N]\<close> arrays, with Go's bounds checks.\<close>

definition copy_pixel ::
  "(nat \<Rightarrow> nat \<Rightarrow> RGBPixel) \<Rightarrow> nat \<Rightarrow> nat \<Rightarrow> nat \<Rightarrow> nat \<Rightarrow>
   (nat \<Rightarrow> nat \<Rightarrow> RGBPixel) \<Rightarrow> (nat \<Rightarrow> nat \<Rightarrow> RGBPixel) option" where
  "copy_pixel src sy sx dy dx dst =
     (if sy < image_N \<and> sx < image_N \<and> dy < image_N \<and> dx < image_N
      then Some (dst(dy := (dst dy)(dx := src sy sx)))
      else None)"

text \<open>\<^verbatim>\<open>img.M[k].(int)\<close> in its comma-ok form: the value and whether it is an int.\<close>

definition meta_int :: "I \<Rightarrow> string \<Rightarrow> int option" where
  "meta_int img k =
     (case M img of
        None \<Rightarrow> None
      | Some m \<Rightarrow> (case map_of m k of Some (MInt i) \<Rightarrow> Some i | _ \<Rightarrow> None))"

text \<open>
  \<^verbatim>\<open>(img *I).Crop(x0, y0, x1, y1)\<close>, the version that moves the cropped area to the
  top-left corner. The result is the image after the call and the returned error;
  \<open>None\<close> is an index-out-of-range panic. The arguments are Go ints; no operation on
  them can overflow once the bounds check has passed.
\<close>

definition Crop :: "I \<Rightarrow> int \<Rightarrow> int \<Rightarrow> int \<Rightarrow> int \<Rightarrow> (I \<times> error option) option" where
  "Crop img x0 y0 x1 y1 =
     (case (meta_int img ''width'', meta_int img ''height'') of
        (Some width, Some height) \<Rightarrow>
          if x0 < 0 \<or> y0 < 0 \<or> x1 \<ge> width \<or> y1 \<ge> height \<or> x0 > x1 \<or> y0 > y1
          then Some (img, Some ''invalid crop dimensions: out of bounds'')
          else
            let cropWidth = x1 - x0 + 1;
                cropHeight = y1 - y0 + 1;
                blackPixel = \<lparr>R = 0, G = 0, B = 0\<rparr>
            in do {
              temp \<leftarrow> for_each (\<lambda>y. for_each (\<lambda>x. copy_pixel (Pixels img) (nat y0 + y) (nat x0 + x) y x)
                                              [0..<nat cropWidth])
                               [0..<nat cropHeight] (\<lambda>y x. zero_RGBPixel);
              let black = fold (\<lambda>y. fold (\<lambda>x px. px(y := (px y)(x := blackPixel))) [0..<image_N])
                               [0..<image_N] (Pixels img);
              moved \<leftarrow> for_each (\<lambda>y. for_each (\<lambda>x. copy_pixel temp y x y x) [0..<nat cropWidth])
                                [0..<nat cropHeight] black;
              Some (meta_set ''height'' (MInt cropHeight)
                      (meta_set ''width'' (MInt cropWidth) (img\<lparr>Pixels := moved\<rparr>)),
                    None)
            }
      | _ \<Rightarrow> Some (img, Some ''invalid image metadata for width and height''))"

section \<open>Circuit variables and the two compliance circuits\<close>

text \<open>
  A \<^verbatim>\<open>frontend.Variable\<close> is an empty interface. The repository stores in it an
  \<^verbatim>\<open>int\<close>, a \<^verbatim>\<open>uint8\<close>, a \<^verbatim>\<open>[]byte\<close>, or leaves it nil.
\<close>

datatype Variable = NilV | IntV int | Uint8V "8 word" | BytesV bytes

record FrontendPixel =
  R :: Variable
  G :: Variable
  B :: Variable

text \<open>The struct \<^verbatim>\<open>FrontendImage\<close> has the single field \<^verbatim>\<open>Pixels [N][N]FrontendPixel\<close>
  and is identified with it.\<close>

type_synonym FrontendImage = "nat \<Rightarrow> nat \<Rightarrow> FrontendPixel"

definition zero_FrontendImage :: FrontendImage where
  "zero_FrontendImage = (\<lambda>i j. \<lparr>R = NilV, G = NilV, B = NilV\<rparr>)"

definition ToFrontendImage :: "I \<Rightarrow> FrontendImage" where
  "ToFrontendImage img =
     fold (\<lambda>y. fold (\<lambda>x fi. fi(y := (fi y)(x :=
                         \<lparr>R = Uint8V (RGBPixel.R (Pixels img y x)),
                          G = Uint8V (RGBPixel.G (Pixels img y x)),
                          B = Uint8V (RGBPixel.B (Pixels img y x))\<rparr>)))
                     [0..<image_N])
          [0..<image_N] zero_FrontendImage"

record CropParams =
  N :: Variable
  X0 :: Variable
  Y0 :: Variable
  X1 :: Variable
  Y1 :: Variable

text \<open>The fields \<^verbatim>\<open>eddsa.PublicKey\<close> and \<^verbatim>\<open>eddsa.Signature\<close> of a circuit are filled by
  \<^verbatim>\<open>Assign(1, b)\<close> from a byte string \<open>b\<close>, which stands for them here.\<close>

record IdentityCircuit =
  PublicKey :: bytes
  ImageSignature :: bytes
  ImageBytes :: Variable

record CropCircuit =
  PublicKey :: bytes
  ImageSignature :: bytes
  ImageBytes :: Variable
  FrImage :: FrontendImage
  CroppedImage_in :: FrontendImage
  Params :: CropParams

text \<open>A \<^verbatim>\<open>frontend.Circuit\<close> is one of the two.\<close>

datatype Circuit = Identity_Circuit IdentityCircuit | Crop_Circuit CropCircuit

section \<open>Serialization\<close>

text \<open>\<^verbatim>\<open>fr.Element.SetBytes\<close> reads a big-endian unsigned integer and reduces it modulo
  the field order; \<^verbatim>\<open>Marshal\<close> writes the element as 32 big-endian bytes.\<close>

definition fr_SetBytes :: "bytes \<Rightarrow> int" where
  "fr_SetBytes e = fold (\<lambda>c acc. acc * 256 + of_char c) e 0 mod fr_modulus"

definition fr_Marshal :: "int \<Rightarrow> bytes" where
  "fr_Marshal z = map (\<lambda>i. char_of ((z div 256 ^ (31 - i)) mod 256)) [0..<32]"

text \<open>The value a variable takes in the field; nil has none.\<close>

fun var_value :: "Variable \<Rightarrow> int option" where
  "var_value NilV = None"
| "var_value (IntV i) = Some (i mod fr_modulus)"
| "var_value (Uint8V w) = Some (uint w)"
| "var_value (BytesV b) = Some (fr_SetBytes b)"

section \<open>External collaborators\<close>

text \<open>
  Keys, witnesses, constraint systems and proofs are objects of gnark and gnark-crypto;
  the repository only passes them on. Each is named by a number. A value of an
  interface type may be nil, which is \<open>None\<close>.
\<close>

type_synonym Signer = nat
type_synonym PublicKey = nat
type_synonym ProvingKey = nat
type_synonym VerifyingKey = nat
type_synonym ConstraintSystem = nat
type_synonym Witness = nat
type_synonym groth16_Proof = nat

text \<open>
  What the collaborators answer during one call of \<^verbatim>\<open>Generator\<close>, \<^verbatim>\<open>Prover\<close> or
  \<^verbatim>\<open>Verifier\<close>; each is invoked at most once per call, so the answers of a run,
  whatever randomness went into them, form a record of functions. A Go result
  \<^verbatim>\<open>(v, err)\<close> is a pair whose second component is \<open>None\<close> for a nil error.
  \<open>json_member k v\<close> is the text \<^verbatim>\<open>encoding/json\<close> writes for the member with key
  \<open>k\<close> and value \<open>v\<close> of a JSON object, \<open>None\<close> when it reports an error for \<open>v\<close>.
\<close>

record backend =
  json_member :: "string \<Rightarrow> meta_value \<Rightarrow> string option"
  eddsa_New :: "Signer option \<times> error option"
  Signer_Public :: "Signer \<Rightarrow> PublicKey"
  Signer_Sign :: "Signer \<Rightarrow> bytes \<Rightarrow> bytes \<times> error option"
  PublicKey_Bytes :: "PublicKey \<Rightarrow> bytes"
  PublicKey_Verify :: "PublicKey \<Rightarrow> bytes \<Rightarrow> bytes \<Rightarrow> bool \<times> error option"
  frontend_NewWitness :: "Circuit \<Rightarrow> Witness option \<times> error option"
  frontend_Compile :: "Circuit \<Rightarrow> ConstraintSystem option \<times> error option"
  groth16_Setup ::
    "ConstraintSystem option \<Rightarrow> ProvingKey option \<times> VerifyingKey option \<times> error option"
  groth16_Prove ::
    "ConstraintSystem option \<Rightarrow> ProvingKey option \<Rightarrow> Witness option \<Rightarrow>
     groth16_Proof option \<times> error option"
  groth16_Verify ::
    "groth16_Proof option \<Rightarrow> VerifyingKey option \<Rightarrow> Witness option \<Rightarrow> error option"
  Witness_Public :: "Witness \<Rightarrow> Witness option \<times> error option"

text \<open>What a run leaves behind besides its result: the lines printed with
  \<^verbatim>\<open>fmt.Println\<close> and the calls made to the collaborators, in order.\<close>

datatype event = Println string | Call string

section \<open>The canonical byte encoding of an image\<close>

fun dec :: "nat \<Rightarrow> string" where
  "dec n = (if n < 10 then [char_of (48 + n)] else dec (n div 10) @ [char_of (48 + n mod 10)])"

definition json_RGBPixel :: "RGBPixel \<Rightarrow> string" where
  "json_RGBPixel p =
     ''{\"R\":'' @ dec (unat (RGBPixel.R p)) @ '',\"G\":'' @ dec (unat (RGBPixel.G p)) @
     '',\"B\":'' @ dec (unat (RGBPixel.B p)) @ ''}''"

fun join :: "string \<Rightarrow> string list \<Rightarrow> string" where
  "join sep [] = []"
| "join sep [s] = s"
| "join sep (s # t # ss) = s @ sep @ join sep (t # ss)"

text \<open>
  \<^verbatim>\<open>json.Marshal\<close> on an image: the struct's fields in declaration order, the arrays
  as JSON arrays, the bytes of a pixel as numbers, and the metadata map as an object
  whose members are written in the sorted order of their keys (a nil map as
  \<^verbatim>\<open>null\<close>).
\<close>

definition json_Marshal :: "backend \<Rightarrow> I \<Rightarrow> bytes \<times> error option" where
  "json_Marshal be img =
     (let row = (\<lambda>y. ''['' @ join '','' (map (\<lambda>x. json_RGBPixel (Pixels img y x)) [0..<image_N]) @ '']'');
          pixels = ''['' @ join '','' (map row [0..<image_N]) @ '']''
      in case M img of
           None \<Rightarrow> (''{\"Pixels\":'' @ pixels @ '',\"M\":null}'', None)
         | Some m \<Rightarrow>
             (case those (map (\<lambda>(k, v). json_member be k v) (sort_key fst m)) of
                None \<Rightarrow> ([], Some ''json: unsupported value'')
              | Some members \<Rightarrow>
                  (''{\"Pixels\":'' @ pixels @ '',\"M\":{'' @ join '','' members @ ''}}'', None)))"

text \<open>\<^verbatim>\<open>ToByte\<close> and \<^verbatim>\<open>ToBigEndian\<close> of an image, with what they print.\<close>

definition ToByte :: "backend \<Rightarrow> I \<Rightarrow> bytes \<times> event list" where
  "ToByte be img =
     (case json_Marshal be img of
        (encoded_image, None) \<Rightarrow> (encoded_image, [])
      | (encoded_image, Some err) \<Rightarrow> ([], [Println (''Error while encoding image: '' @ err)]))"

definition ToBigEndian :: "backend \<Rightarrow> I \<Rightarrow> bytes \<times> event list" where
  "ToBigEndian be img =
     (let (img_bytes, printed) = ToByte be img;
          msgFr = fr_SetBytes img_bytes;
          big_endian_bytes_Image = fr_Marshal msgFr
      in (big_endian_bytes_Image, printed))"

section \<open>The Crop circuit's pixel computation\<close>

text \<open>An index into an \<^verbatim>\<open>[N]\<close> array, read from a field value: outside the grid
  the access panics.\<close>

definition array_index :: "int \<Rightarrow> nat option" where
  "array_index v = (if 0 \<le> v \<and> v < int image_N then Some (nat v) else None)"

text \<open>The body of the two nested loops of \<^verbatim>\<open>CropFrontendImage\<close>, at column \<open>x\<close> of
  row \<open>y\<close>.\<close>

definition CropFrontendImage_body ::
  "FrontendImage \<Rightarrow> int \<Rightarrow> Fr_SquareArea \<Rightarrow> Fr_SquareArea \<Rightarrow> nat \<Rightarrow> nat \<Rightarrow>
   FrontendImage \<Rightarrow> FrontendImage option" where
  "CropFrontendImage_body oldImage zero cropArea imageBounds y x newImage =
     (let xFr = int x;
          yFr = int y;
          inCropArea = InArea xFr yFr cropArea;
          newXFr = api_Sub xFr (X (topLeft cropArea));
          newYFr = api_Sub xFr (Y (topLeft cropArea));
          inBounds = InArea newXFr newYFr imageBounds;
          currentPixel = oldImage x y
      in do {
        newX \<leftarrow> array_index newXFr;
        newY \<leftarrow> array_index newYFr;
        r \<leftarrow> var_value (R currentPixel);
        g \<leftarrow> var_value (G currentPixel);
        b \<leftarrow> var_value (B currentPixel);
        Some (newImage(newX := (newImage newX)(newY :=
                \<lparr>R = IntV (api_Select inBounds (api_Select inCropArea r zero) zero),
                 G = IntV (api_Select inBounds (api_Select inCropArea g zero) zero),
                 B = IntV (api_Select inBounds (api_Select inCropArea b zero) zero)\<rparr>)))
      })"

definition CropFrontendImage :: "CropCircuit \<Rightarrow> FrontendImage option" where
  "CropFrontendImage circuit =
     do {
       n \<leftarrow> var_value (N (Params circuit));
       x0 \<leftarrow> var_value (X0 (Params circuit));
       y0 \<leftarrow> var_value (Y0 (Params circuit));
       x1 \<leftarrow> var_value (X1 (Params circuit));
       y1 \<leftarrow> var_value (Y1 (Params circuit));
       let zero = 0;
           one = 1;
           N_minus_one = api_Sub n one;
           oldImage = FrImage circuit;
           newImage = zero_FrontendImage;
           cropArea = \<lparr>topLeft = \<lparr>X = x0, Y = y0\<rparr>, bottomRight = \<lparr>X = x1, Y = y1\<rparr>\<rparr>;
           imageBounds = \<lparr>topLeft = \<lparr>X = zero, Y = zero\<rparr>,
                          bottomRight = \<lparr>X = N_minus_one, Y = N_minus_one\<rparr>\<rparr>
       in for_each (\<lambda>y. for_each (CropFrontendImage_body oldImage zero cropArea imageBounds y)
                                  [0..<image_N])
                   [0..<image_N] newImage
     }"

section \<open>Transformations\<close>

text \<open>The constants \<^verbatim>\<open>Identity\<close> and \<^verbatim>\<open>Crop\<close> of the transformations package.\<close>

definition myTransformations_Identity :: int where
  "myTransformations_Identity = 0"

definition myTransformations_Crop :: int where
  "myTransformations_Crop = 1"

text \<open>Reading a \<^verbatim>\<open>map[string]int\<close> at a key it does not hold (or a nil map) gives 0.\<close>

record Transformation =
  T :: int
  Params :: "string \<rightharpoonup> int"

record FrTransformation =
  T :: Variable
  Params :: CropParams

definition param :: "Transformation \<Rightarrow> string \<Rightarrow> int" where
  "param t k = (case Transformation.Params t k of None \<Rightarrow> 0 | Some v \<Rightarrow> v)"

definition ToFr :: "Transformation \<Rightarrow> FrTransformation" where
  "ToFr t =
     (let params = \<lparr>N = NilV, X0 = IntV (param t ''x0''), Y0 = IntV (param t ''y0''),
                     X1 = IntV (param t ''x1''), Y1 = IntV (param t ''y1'')\<rparr>
      in \<lparr>FrTransformation.T = IntV (Transformation.T t), Params = params\<rparr>)"

text \<open>The type assertion \<^verbatim>\<open>v.(int)\<close>; it panics unless \<open>v\<close> holds an int.\<close>

fun as_int :: "Variable \<Rightarrow> int option" where
  "as_int (IntV i) = Some i"
| "as_int _ = None"

section \<open>Keys and proofs\<close>

record Z =
  Image :: I
  PublicKey :: "PublicKey option"

record VK_PP =
  VerifyingKey :: "VerifyingKey option"
  PublicKey :: "PublicKey option"

record PK_PP =
  ProvingKey :: "ProvingKey option"
  PublicKey :: "PublicKey option"

record SK_PP =
  SecretKey :: "Signer option"

text \<open>The proof object of the earlier prover (the one that proves the Identity circuit),
  then that of the current one.\<close>

record Proof_0 =
  PCD_proof :: "groth16_Proof option"
  Z_in :: Z
  Digital_Sig :: bytes
  Public_Witness :: "Witness option"

record Proof =
  PCD_proof :: "groth16_Proof option"
  Z :: Z
  ImageSignature :: bytes
  Public_Witness :: "Witness option"

text \<open>The zero value \<^verbatim>\<open>Proof{}\<close>.\<close>

definition zero_Proof :: Proof where
  "zero_Proof =
     \<lparr>Proof.PCD_proof = None,
      Z = \<lparr>Image = \<lparr>Pixels = (\<lambda>y x. zero_RGBPixel), M = None\<rparr>, PublicKey = None\<rparr>,
      ImageSignature = [],
      Proof.Public_Witness = None\<rparr>"

definition print_error :: "error option \<Rightarrow> event list" where
  \<comment> \<open>\<^verbatim>\<open>if err != nil { fmt.Println(err.Error()) }\<close>\<close>
  "print_error err = (case err of None \<Rightarrow> [] | Some e \<Rightarrow> [Println e])"

definition print_error_in :: "string \<Rightarrow> error option \<Rightarrow> event list" where
  \<comment> \<open>\<^verbatim>\<open>if err != nil { fmt.Println(what + err.Error() + "\n-----------------") }\<close>\<close>
  "print_error_in what err =
     (case err of
        None \<Rightarrow> []
      | Some e \<Rightarrow> [Println (what @ e @ [CHR 0x0A] @ ''-----------------'')])"

section \<open>Generator\<close>

text \<open>
  \<^verbatim>\<open>Sign\<close> of the generator package: a fresh key pair and a signature over the
  image's big-endian encoding. \<open>None\<close> is the panic of calling \<^verbatim>\<open>Public\<close> on the nil
  signer that a failed key generation leaves.
\<close>

definition Sign :: "backend \<Rightarrow> I \<Rightarrow> ((bytes \<times> PublicKey \<times> Signer \<times> bytes) \<times> event list) option" where
  "Sign be img =
     (let (secretKey, err) = eddsa_New be;
          log_new = Call ''eddsa.New'' # print_error err
      in case secretKey of
           None \<Rightarrow> None
         | Some sk \<Rightarrow>
             let publicKey = Signer_Public be sk;
                 (big_endian_bytes_Image, log_enc) = ToBigEndian be img;
                 (normalSignature, err) = Signer_Sign be sk big_endian_bytes_Image;
                 log_sign = Call ''Signer.Sign'' # print_error err
             in Some ((normalSignature, publicKey, sk, big_endian_bytes_Image),
                      log_new @ log_enc @ log_sign))"

definition identity_params :: "FrTransformation \<Rightarrow> FrTransformation" where
  \<comment> \<open>the four assignments made when the transformation is the Identity\<close>
  "identity_params frT =
     frT\<lparr>FrTransformation.Params := (FrTransformation.Params frT)
           \<lparr>X0 := IntV 0, Y0 := IntV 0,
            X1 := IntV (int image_N - 1), Y1 := IntV (int image_N - 1)\<rparr>\<rparr>"

definition Generator ::
  "backend \<Rightarrow> I \<Rightarrow> Transformation \<Rightarrow>
   ((PK_PP \<times> VK_PP \<times> SK_PP \<times> error option) \<times> event list) option" where
  "Generator be img t =
     do {
       ((normalSignature, publicKey, secretKey, big_endian_bytes_Image), log_sign) \<leftarrow> Sign be img;
       (let eddsa_signature = normalSignature;
           eddsa_publicKey = PublicKey_Bytes be publicKey;
           frT = ToFr t;
           frT = (if Transformation.T t = myTransformations_Identity then identity_params frT else frT);
           circuit = \<lparr>CropCircuit.PublicKey = eddsa_publicKey,
                      ImageSignature = eddsa_signature,
                      ImageBytes = BytesV big_endian_bytes_Image,
                      FrImage = ToFrontendImage img,
                      CroppedImage_in = ToFrontendImage img,
                      Params = FrTransformation.Params frT\<rparr>;
           (compliance_predicate, err) = frontend_Compile be (Crop_Circuit circuit);
           log_compile = Call ''frontend.Compile'' # print_error err;
           (provingKey, verifyingKey, err) = groth16_Setup be compliance_predicate;
           log_setup = Call ''groth16.Setup'' # print_error err;
           vk_PCD = \<lparr>VerifyingKey = verifyingKey, PublicKey = Some publicKey\<rparr>;
           pk_PCD = \<lparr>ProvingKey = provingKey, PublicKey = Some publicKey\<rparr>
        in Some ((pk_PCD, vk_PCD, \<lparr>SecretKey = Some secretKey\<rparr>, err),
                 log_sign @ log_compile @ log_setup))
     }"

section \<open>Prover\<close>

text \<open>
  Both branches of \<^verbatim>\<open>Prover\<close> end with the same statements: build the witness,
  compile, prove, extract the public witness, printing each error and going on.
  \<open>None\<close> is the panic of calling \<^verbatim>\<open>Public\<close> on a nil witness.
\<close>

definition prove_circuit ::
  "backend \<Rightarrow> PK_PP \<Rightarrow> Circuit \<Rightarrow>
   ((groth16_Proof option \<times> Witness option) \<times> event list) option" where
  "prove_circuit be pk_pcd frontendCircuit =
     (let (secret_witness, err) = frontend_NewWitness be frontendCircuit;
          log_witness = Call ''frontend.NewWitness'' #
            print_error_in (''Error while creating Witness: '' @ [CHR 0x0A]) err;
          (compliance_predicate, err) = frontend_Compile be frontendCircuit;
          log_compile = Call ''frontend.Compile'' # print_error err;
          (proof_out, err) = groth16_Prove be compliance_predicate (ProvingKey pk_pcd) secret_witness;
          log_prove = Call ''groth16.Prove'' #
            print_error_in (''Error while creating Proof: '' @ [CHR 0x0A]) err
      in case secret_witness of
           None \<Rightarrow> None
         | Some w \<Rightarrow>
             let (publicWitness, err) = Witness_Public be w;
                 log_public = print_error_in (''Error while creating Public Witness: '' @ [CHR 0x0A]) err
             in Some ((proof_out, publicWitness),
                      log_witness @ log_compile @ log_prove @ log_public))"

text \<open>
  \<^verbatim>\<open>Prover(pk_pcd, verifyingKey, proof_in, t)\<close>. The result is the returned proof with
  the events of the run; \<open>None\<close> is a panic (of \<^verbatim>\<open>Crop\<close>, of \<^verbatim>\<open>Sign\<close>, of a method
  called on a nil key or witness).
\<close>

definition Prover ::
  "backend \<Rightarrow> PK_PP \<Rightarrow> VerifyingKey option \<Rightarrow> Proof \<Rightarrow> Transformation \<Rightarrow>
   (Proof \<times> event list) option" where
  "Prover be pk_pcd verifyingKey proof_in t =
     (if Proof.PCD_proof proof_in = None then
        do {
          pk \<leftarrow> PK_PP.PublicKey pk_pcd;
          let eddsa_signature = Proof.ImageSignature proof_in;
          let eddsa_publicKey = PublicKey_Bytes be pk;
          let (image_bytes, log_enc) = ToBigEndian be (Image (Z proof_in));
          let circuit = \<lparr>CropCircuit.PublicKey = eddsa_publicKey,
                         ImageSignature = eddsa_signature,
                         ImageBytes = BytesV image_bytes,
                         FrImage = ToFrontendImage (Image (Z proof_in)),
                         CroppedImage_in = ToFrontendImage (Image (Z proof_in)),
                         Params = FrTransformation.Params (ToFr t)\<rparr>;
          ((proof_out, publicWitness), log_prove) \<leftarrow> prove_circuit be pk_pcd (Crop_Circuit circuit);
          Some (\<lparr>Proof.PCD_proof = proof_out, Z = Z proof_in,
                 ImageSignature = Proof.ImageSignature proof_in,
                 Proof.Public_Witness = publicWitness\<rparr>,
                log_enc @ log_prove)
        }
      else if Transformation.T t = myTransformations_Crop \<or>
              Transformation.T t = myTransformations_Identity then
        do {
          let frT = ToFr t;
          let frT = (if Transformation.T t = myTransformations_Identity then identity_params frT else frT);
          let err = groth16_Verify be (Proof.PCD_proof proof_in) verifyingKey (Proof.Public_Witness proof_in);
          let log_verify = [Call ''groth16.Verify'',
                 (case err of
                    Some e \<Rightarrow> Println ''FAIL: Image did not pass verification against PCD Proof.''
                  | None \<Rightarrow> Println ''SUCCESS: Image verified against PCD Proof.'')];
          let z_in = Z proof_in;
          x0 \<leftarrow> as_int (X0 (FrTransformation.Params frT));
          y0 \<leftarrow> as_int (Y0 (FrTransformation.Params frT));
          x1 \<leftarrow> as_int (X1 (FrTransformation.Params frT));
          y1 \<leftarrow> as_int (Y1 (FrTransformation.Params frT));
          (image_out, crop_err) \<leftarrow> Crop (Image (Z proof_in)) x0 y0 x1 y1;
          ((normalSignature, publicKey, secretKey, big_endian_bytes_Image), log_sign) \<leftarrow> Sign be image_out;
          let z_out = \<lparr>Image = image_out, PublicKey = Some publicKey\<rparr>;
          let eddsa_signature = normalSignature;
          let eddsa_publicKey = PublicKey_Bytes be publicKey;
          let circuit = \<lparr>CropCircuit.PublicKey = eddsa_publicKey,
                         ImageSignature = eddsa_signature,
                         ImageBytes = BytesV big_endian_bytes_Image,
                         FrImage = ToFrontendImage (Image z_in),
                         CroppedImage_in = ToFrontendImage (Image z_out),
                         Params = FrTransformation.Params frT\<rparr>;
          ((proof_out, publicWitness), log_prove) \<leftarrow> prove_circuit be pk_pcd (Crop_Circuit circuit);
          Some (\<lparr>Proof.PCD_proof = proof_out, Z = z_out, ImageSignature = [],
                 Proof.Public_Witness = publicWitness\<rparr>,
                log_verify @ [Call ''Crop''] @ log_sign @ log_prove)
        }
      else Some (zero_Proof, []))"

text \<open>
  The earlier \<^verbatim>\<open>Prover(pk_pcd, z_in, proof_in, t)\<close>, which only has the base case and
  proves the Identity circuit. It does not look at the error of \<^verbatim>\<open>groth16.Prove\<close>.
\<close>

definition Prover_0 ::
  "backend \<Rightarrow> PK_PP \<Rightarrow> Z \<Rightarrow> Proof_0 \<Rightarrow> Transformation \<Rightarrow> ((Proof_0 \<times> Z) \<times> event list) option" where
  "Prover_0 be pk_pcd z_in proof_in t =
     (if Proof_0.PCD_proof proof_in = None then
        do {
          pk \<leftarrow> PK_PP.PublicKey pk_pcd;
          let eddsa_signature = Digital_Sig proof_in;
          let eddsa_publicKey = PublicKey_Bytes be pk;
          let (image_bytes, log_enc) = ToBigEndian be (Image z_in);
          let circuit = \<lparr>IdentityCircuit.PublicKey = eddsa_publicKey,
                         ImageSignature = eddsa_signature,
                         ImageBytes = BytesV image_bytes\<rparr>;
          let frontendCircuit = Identity_Circuit circuit;
          let (secret_witness, err) = frontend_NewWitness be frontendCircuit;
          let log_witness = Call ''frontend.NewWitness'' #
                print_error_in (''Error while creating Witness: '' @ [CHR 0x0A]) err;
          let (compliance_predicate, err) = frontend_Compile be frontendCircuit;
          let log_compile = Call ''frontend.Compile'' # print_error err;
          let (proof_out, err) = groth16_Prove be compliance_predicate (ProvingKey pk_pcd) secret_witness;
          w \<leftarrow> secret_witness;
          let (publicWitness, err) = Witness_Public be w;
          let log_public = print_error_in (''Error while creating Public Witness: '' @ [CHR 0x0A]) err;
          Some ((\<lparr>Proof_0.PCD_proof = proof_out, Z_in = z_in, Digital_Sig = [],
                  Public_Witness = publicWitness\<rparr>, z_in),
                log_enc @ log_witness @ log_compile @ [Call ''groth16.Prove''] @ log_public)
        }
      else Some ((\<lparr>Proof_0.PCD_proof = None,
                   Z_in = \<lparr>Image = \<lparr>Pixels = (\<lambda>y x. zero_RGBPixel), M = None\<rparr>, PublicKey = None\<rparr>,
                   Digital_Sig = [], Public_Witness = None\<rparr>,
                  \<lparr>Image = \<lparr>Pixels = (\<lambda>y x. zero_RGBPixel), M = None\<rparr>, PublicKey = None\<rparr>), []))"

section \<open>Verifier\<close>


section \<open>Reading a run\<close>

text \<open>
  The collaborator calls of a run, in order, without the printed lines.
\<close>

fun calls :: "event list \<Rightarrow> string list" where
  "calls [] = []"
| "calls (Call s # es) = s # calls es"
| "calls (Println s # es) = calls es"

text \<open>
  The rectangle the inductive transition of \<^verbatim>\<open>Prover\<close> passes to \<^verbatim>\<open>Crop\<close>: the whole
  grid when the tag is Identity (the parameters are overwritten with \<open>0, 0, N - 1, N - 1\<close>),
  the transformation's own parameters otherwise.
\<close>

definition crop_rectangle :: "Transformation \<Rightarrow> int \<times> int \<times> int \<times> int" where
  "crop_rectangle t =
     (if Transformation.T t = myTransformations_Identity
      then (0, 0, int image_N - 1, int image_N - 1)
      else (param t ''x0'', param t ''y0'', param t ''x1'', param t ''y1''))"

section \<open>Well-formed metadata\<close>

text \<open>The recorded width and height of an image, where present as integers, do not
  exceed the grid. \<^verbatim>\<open>AllWhiteImage\<close> records \<open>image_N\<close> for both and \<^verbatim>\<open>Crop\<close> only
  lowers them.\<close>

definition dims_within_grid :: "I \<Rightarrow> bool" where
  "dims_within_grid img =
     ((case meta_int img ''width'' of None \<Rightarrow> True | Some w \<Rightarrow> w \<le> int image_N) \<and>
      (case meta_int img ''height'' of None \<Rightarrow> True | Some h \<Rightarrow> h \<le> int image_N))"

section \<open>Concrete inputs\<close>

text \<open>The rectangle (2,2)-(5,5), the full grid (0,0)-(15,15), and an all-white
  frontend image.\<close>

definition area_2_5 :: Fr_SquareArea where
  "area_2_5 = \<lparr>topLeft = \<lparr>X = 2, Y = 2\<rparr>, bottomRight = \<lparr>X = 5, Y = 5\<rparr>\<rparr>"

definition full_area :: Fr_SquareArea where
  "full_area = \<lparr>topLeft = \<lparr>X = 0, Y = 0\<rparr>, bottomRight = \<lparr>X = 15, Y = 15\<rparr>\<rparr>"

text \<open>A backend whose every call succeeds and whose only valid signature is the text
  \<open>signature\<close>, and variants of it: one that rejects every
  circuit proof, one whose compiler fails, and one whose witnesses tell which circuit
  they were built from (1 for the Identity circuit, 2 for the Crop circuit).\<close>

definition stub_backend :: backend where
  "stub_backend =
     \<lparr>json_member = (\<lambda>k v. Some k),
      eddsa_New = (Some 7, None),
      Signer_Public = (\<lambda>sk. sk),
      Signer_Sign = (\<lambda>sk msg. (''signature'', None)),
      PublicKey_Bytes = (\<lambda>pk. []),
      PublicKey_Verify = (\<lambda>pk sig msg. (sig = ''signature'', None)),
      frontend_NewWitness = (\<lambda>c. (Some 1, None)),
      frontend_Compile = (\<lambda>c. (Some 1, None)),
      groth16_Setup = (\<lambda>cs. (Some 1, Some 1, None)),
      groth16_Prove = (\<lambda>cs pk w. (Some 1, None)),
      groth16_Verify = (\<lambda>p vk w. None),
      Witness_Public = (\<lambda>w. (Some w, None))\<rparr>"

definition rejecting_backend :: backend where
  "rejecting_backend = stub_backend\<lparr>groth16_Verify := (\<lambda>p vk w. Some ''invalid proof'')\<rparr>"


definition failing_compile_backend :: backend where
  "failing_compile_backend =
     stub_backend\<lparr>frontend_Compile := (\<lambda>c. (None, Some ''compile error''))\<rparr>"

definition probing_backend :: backend where
  "probing_backend =
     stub_backend\<lparr>frontend_NewWitness :=
       (\<lambda>c. case c of Identity_Circuit ic \<Rightarrow> (Some 1, None) | Crop_Circuit cc \<Rightarrow> (Some 2, None))\<rparr>"

text \<open>Keys as \<^verbatim>\<open>Generator\<close> returns them on the stub backend, the camera's signed
  image before any circuit proof, a proof object that carries a circuit proof, and
  three transformations: the Identity as the camera passes it, a Crop with
  \<open>x0 > x1\<close>, and one with an unknown tag.\<close>

definition stub_pk :: PK_PP where
  "stub_pk = \<lparr>ProvingKey = Some 1, PublicKey = Some 7\<rparr>"


definition signed_proof :: Proof where
  "signed_proof =
     \<lparr>PCD_proof = None, Z = \<lparr>Image = AllWhiteImage, PublicKey = Some 7\<rparr>,
      ImageSignature = ''signature'', Public_Witness = None\<rparr>"

text \<open>The same signed image as the earlier prover takes it.\<close>

definition signed_proof_0 :: Proof_0 where
  "signed_proof_0 =
     \<lparr>Proof_0.PCD_proof = None, Z_in = \<lparr>Image = AllWhiteImage, PublicKey = Some 7\<rparr>,
      Digital_Sig = ''signature'', Public_Witness = None\<rparr>"

definition proven_proof :: Proof where
  "proven_proof =
     \<lparr>PCD_proof = Some 1, Z = \<lparr>Image = AllWhiteImage, PublicKey = Some 7\<rparr>,
      ImageSignature = [], Public_Witness = Some 1\<rparr>"

definition identity_t :: Transformation where
  "identity_t = \<lparr>Transformation.T = myTransformations_Identity, Params = Map.empty\<rparr>"

definition inverted_crop_t :: Transformation where
  "inverted_crop_t =
     \<lparr>Transformation.T = myTransformations_Crop,
      Params = [''x0'' \<mapsto> 5, ''y0'' \<mapsto> 3, ''x1'' \<mapsto> 3, ''y1'' \<mapsto> 6]\<rparr>"

definition unknown_t :: Transformation where
  "unknown_t = \<lparr>Transformation.T = 2, Params = Map.empty\<rparr>"

text \<open>The metadata entries of the all-white image.\<close>

definition white_metadata :: "(string \<times> meta_value) list" where
  "white_metadata =
     [(''Author'', MString ''John Doe''), (''N'', MInt 16), (''height'', MInt 16),
      (''width'', MInt 16)]"

definition white_FrontendImage :: FrontendImage where
  "white_FrontendImage = (\<lambda>i j. \<lparr>R = Uint8V 255, G = Uint8V 255, B = Uint8V 255\<rparr>)"

text \<open>The Crop circuit for the rectangle (3,3)-(6,6) of the demonstration, on the
  all-white image.\<close>

definition crop_3_6_circuit :: CropCircuit where
  "crop_3_6_circuit =
     \<lparr>CropCircuit.PublicKey = [], ImageSignature = [], ImageBytes = BytesV [],
      FrImage = white_FrontendImage, CroppedImage_in = white_FrontendImage,
      Params = \<lparr>N = IntV 16, X0 = IntV 3, Y0 = IntV 3, X1 = IntV 6, Y1 = IntV 6\<rparr>\<rparr>"

section \<open>Properties\<close>

lemma fr_modulus_gt_2: "2 < fr_modulus"
  by (simp add: fr_modulus_def)

lemma minus_one_mod_fr: "(- 1) mod fr_modulus = fr_modulus - 1"
  using fr_modulus_gt_2 by (simp add: zmod_minus1)

lemma api_Cmp_cases:
  "api_Cmp a b = fr_modulus - 1 \<or> api_Cmp a b = 0 \<or> api_Cmp a b = 1"
  by (simp add: api_Cmp_def minus_one_mod_fr)

lemma IsZero_Cmp_exclusive:
  "api_IsZero (api_Cmp a b) = 0 \<or> api_IsZero (api_Add (api_Cmp a b) 1) = 0"
proof -
  consider "api_Cmp a b = fr_modulus - 1" | "api_Cmp a b = 0" | "api_Cmp a b = 1"
    using api_Cmp_cases by blast
  then show ?thesis
  proof cases
    case 1
    then have "api_Cmp a b mod fr_modulus = fr_modulus - 1"
      using fr_modulus_gt_2 by (simp add: minus_one_mod_fr)
    then show ?thesis
      using fr_modulus_gt_2 by (simp add: api_IsZero_def)
  next
    case 2
    then have "api_Add (api_Cmp a b) 1 = 1"
      using fr_modulus_gt_2 by (simp add: api_Add_def)
    then show ?thesis
      using fr_modulus_gt_2 by (simp add: api_IsZero_def)
  next
    case 3
    then have "api_Add (api_Cmp a b) 1 = 2"
      using fr_modulus_gt_2 by (simp add: api_Add_def)
    then show ?thesis
      using fr_modulus_gt_2 by (simp add: api_IsZero_def)
  qed
qed

lemma api_And_zero_left: "api_And 0 b = 0"
  by (simp add: api_And_def)

lemma api_And_zero_right: "api_And a 0 = 0"
  by (simp add: api_And_def)

lemma InArea_axis_zero:
  "api_And (api_And (api_IsZero (api_Cmp a b)) u)
           (api_And (api_IsZero (api_Add (api_Cmp a b) 1)) v) = 0"
  using IsZero_Cmp_exclusive [of a b]
  by (auto simp: api_And_zero_left api_And_zero_right)

lemma InArea_always_zero: "InArea x y area = 0"
  by (simp add: InArea_def Let_def InArea_axis_zero api_And_zero_left)



lemma api_Select_zero: "api_Select 0 a b = b mod fr_modulus"
  using fr_modulus_gt_2 by (simp add: api_Select_def)

lemma small_mod_fr: "0 \<le> v \<Longrightarrow> v < 256 \<Longrightarrow> v mod fr_modulus = v"
  using fr_modulus_gt_2 by (simp add: fr_modulus_def)

lemma api_Sub_small: "0 \<le> b \<Longrightarrow> b \<le> a \<Longrightarrow> a < 256 \<Longrightarrow> api_Sub a b = a - b"
  by (simp add: api_Sub_def small_mod_fr)

subsection \<open>Loops over the grid\<close>

lemma for_each_append:
  "for_each body (xs @ ys) s =
     (case for_each body xs s of None \<Rightarrow> None | Some s' \<Rightarrow> for_each body ys s')"
  by (induction xs arbitrary: s) (auto split: option.splits)

lemma copy_row:
  assumes "sy < image_N" and "dy < image_N" and "w \<le> image_N"
    and "\<And>x. x < w \<Longrightarrow> g x < image_N"
  shows "\<exists>d. for_each (\<lambda>x. copy_pixel src sy (g x) dy x) [0..<w] dst = Some d
           \<and> (\<forall>a x. d a x = (if a = dy \<and> x < w then src sy (g x) else dst a x))"
  using assms(3,4)
proof (induction w)
  case 0
  show ?case by simp
next
  case (Suc w)
  then obtain d where d: "for_each (\<lambda>x. copy_pixel src sy (g x) dy x) [0..<w] dst = Some d"
    and dv: "\<And>a x. d a x = (if a = dy \<and> x < w then src sy (g x) else dst a x)"
    by force
  have b: "w < image_N" "g w < image_N" using Suc.prems by simp_all
  have step: "copy_pixel src sy (g w) dy w d = Some (d(dy := (d dy)(w := src sy (g w))))"
    using assms(1,2) b by (simp add: copy_pixel_def)
  have "\<forall>a x. (d(dy := (d dy)(w := src sy (g w)))) a x
           = (if a = dy \<and> x < Suc w then src sy (g x) else dst a x)"
    by (simp add: dv less_Suc_eq)
  then show ?case
    by (simp add: for_each_append d step del: fun_upd_apply)
qed

lemma copy_rows:
  assumes "h \<le> image_N" and "w \<le> image_N"
    and "\<And>y. y < h \<Longrightarrow> f y < image_N"
    and "\<And>x. x < w \<Longrightarrow> g x < image_N"
  shows "\<exists>d. for_each (\<lambda>y. for_each (\<lambda>x. copy_pixel src (f y) (g x) y x) [0..<w]) [0..<h] dst = Some d
           \<and> (\<forall>y x. d y x = (if y < h \<and> x < w then src (f y) (g x) else dst y x))"
  using assms(1,3)
proof (induction h)
  case 0
  show ?case by simp
next
  case (Suc h)
  then obtain d where d: "for_each (\<lambda>y. for_each (\<lambda>x. copy_pixel src (f y) (g x) y x) [0..<w]) [0..<h] dst = Some d"
    and dv: "\<And>y x. d y x = (if y < h \<and> x < w then src (f y) (g x) else dst y x)"
    by force
  have b: "h < image_N" "f h < image_N" using Suc.prems by simp_all
  obtain d' where d': "for_each (\<lambda>x. copy_pixel src (f h) (g x) h x) [0..<w] d = Some d'"
    and d'v: "\<And>a x. d' a x = (if a = h \<and> x < w then src (f h) (g x) else d a x)"
    using copy_row [OF b(2) b(1) assms(2), of g src d] assms(4) by blast
  have "\<forall>y x. d' y x = (if y < Suc h \<and> x < w then src (f y) (g x) else dst y x)"
    by (simp add: d'v dv less_Suc_eq)
  then show ?case
    by (simp add: for_each_append d d')
qed

lemma fold_points:
  assumes "\<And>x px a b. step x px a b = (if p a b x then v a b else px a b)"
  shows "fold step [0..<w] px a b = (if \<exists>x<w. p a b x then v a b else px a b)"
proof (induction w)
  case 0
  show ?case by simp
next
  case (Suc w)
  then show ?case
    by (auto simp: assms less_Suc_eq)
qed

lemma fill_row:
  "fold (\<lambda>x px. px(y := (px y)(x := v x))) [0..<w] px a b
   = (if a = y \<and> b < w then v b else px a b)"
proof -
  have "fold (\<lambda>x px. px(y := (px y)(x := v x))) [0..<w] px a b
      = (if \<exists>x<w. a = y \<and> b = x then v b else px a b)"
    by (rule fold_points) auto
  then show ?thesis by auto
qed

lemma fill_rows:
  "fold (\<lambda>y. fold (\<lambda>x px. px(y := (px y)(x := v y x))) [0..<w]) [0..<h] px a b
   = (if a < h \<and> b < w then v a b else px a b)"
proof -
  have "fold (\<lambda>y. fold (\<lambda>x px. px(y := (px y)(x := v y x))) [0..<w]) [0..<h] px a b
      = (if \<exists>y<h. a = y \<and> b < w then v a b else px a b)"
    by (rule fold_points) (auto simp: fill_row)
  then show ?thesis by auto
qed


lemma Crop_rejects:
  assumes "dims_within_grid img"
    and "\<not> (0 \<le> x0 \<and> x0 \<le> x1 \<and> x1 < int image_N \<and> 0 \<le> y0 \<and> y0 \<le> y1 \<and> y1 < int image_N)"
  shows "\<exists>e. Crop img x0 y0 x1 y1 = Some (img, Some e)"
  using assms
  by (auto simp: Crop_def dims_within_grid_def split: option.splits)

lemma meta_set_same:
  assumes "meta_int img k = Some v"
  shows "meta_set k (MInt v) img = img"
proof -
  obtain m where m: "M img = Some m" and "map_of m k = Some (MInt v)"
    using assms by (auto simp: meta_int_def split: option.splits meta_value.splits)
  then have "AList.update k (MInt v) m = m"
    by (simp add: update_triv)
  then show ?thesis
    by (simp add: meta_set_def m)
qed

lemma Crop_whole_grid:
  assumes w: "meta_int img ''width'' = Some (int image_N)"
    and h: "meta_int img ''height'' = Some (int image_N)"
  shows "Crop img 0 0 (int image_N - 1) (int image_N - 1) = Some (img, None)"
proof -
  let ?z = "\<lambda>y x. zero_RGBPixel"
  obtain temp where temp:
    "for_each (\<lambda>y. for_each (\<lambda>x. copy_pixel (Pixels img) (nat 0 + y) (nat 0 + x) y x) [0..<image_N])
       [0..<image_N] ?z = Some temp"
    and tv: "\<And>y x. temp y x = (if y < image_N \<and> x < image_N then Pixels img (nat 0 + y) (nat 0 + x) else ?z y x)"
    using copy_rows [of image_N image_N "\<lambda>y. nat 0 + y" "\<lambda>x. nat 0 + x" "Pixels img" ?z]
    by auto
  let ?black = "fold (\<lambda>y. fold (\<lambda>x px. px(y := (px y)(x := \<lparr>RGBPixel.R = 0, G = 0, B = 0\<rparr>))) [0..<image_N])
                  [0..<image_N] (Pixels img)"
  obtain moved where moved:
    "for_each (\<lambda>y. for_each (\<lambda>x. copy_pixel temp y x y x) [0..<image_N]) [0..<image_N] ?black = Some moved"
    and mv: "\<And>y x. moved y x = (if y < image_N \<and> x < image_N then temp y x else ?black y x)"
    using copy_rows [of image_N image_N "\<lambda>y. y" "\<lambda>x. x" temp ?black]
    by auto
  have "moved = Pixels img"
    by (intro ext) (simp add: mv tv fill_rows)
  then have same: "img\<lparr>Pixels := moved\<rparr> = img"
    by simp
  have pos: "0 < image_N"
    by (simp add: image_N_def)
  show ?thesis
    using temp moved pos
    by (simp add: Crop_def w h same meta_set_same)
qed

lemma Crop_full_bounds_identity:
  assumes "dims_within_grid img"
  shows "\<exists>e. Crop img 0 0 (int image_N - 1) (int image_N - 1) = Some (img, e)"
proof (cases "meta_int img ''width'' = Some (int image_N) \<and> meta_int img ''height'' = Some (int image_N)")
  case True
  then show ?thesis by (simp add: Crop_whole_grid)
next
  case False
  then have "\<not> (0 \<le> (0::int) \<and> (0::int) \<le> int image_N - 1 \<and> False)" by simp
  from False assms show ?thesis
    by (auto simp: Crop_def dims_within_grid_def split: option.splits)
qed

subsection \<open>Crop on valid rectangles\<close>

lemma meta_int_meta_set:
  assumes "M img \<noteq> None"
  shows "meta_int (meta_set k v img) k' =
           (if k' = k then (case v of MInt i \<Rightarrow> Some i | _ \<Rightarrow> None) else meta_int img k')"
  using assms
  by (auto simp: meta_int_def meta_set_def update_conv' split: option.splits meta_value.splits)

lemma M_meta_set_not_None: "M img \<noteq> None \<Longrightarrow> M (meta_set k v img) \<noteq> None"
  by (auto simp: meta_set_def)

lemma Crop_valid:
  assumes w: "meta_int img ''width'' = Some w" and h: "meta_int img ''height'' = Some h"
    and x: "0 \<le> x0" "x0 \<le> x1" "x1 < w" and y: "0 \<le> y0" "y0 \<le> y1" "y1 < h"
    and grid: "w \<le> int image_N" "h \<le> int image_N"
  shows "\<exists>img'. Crop img x0 y0 x1 y1 = Some (img', None) \<and>
           (\<forall>a b. Pixels img' a b =
              (if a < image_N \<and> b < image_N
               then (if int a \<le> y1 - y0 \<and> int b \<le> x1 - x0
                     then Pixels img (nat y0 + a) (nat x0 + b)
                     else \<lparr>RGBPixel.R = 0, G = 0, B = 0\<rparr>)
               else Pixels img a b)) \<and>
           meta_int img' ''width'' = Some (x1 - x0 + 1) \<and>
           meta_int img' ''height'' = Some (y1 - y0 + 1)"
proof -
  let ?cw = "nat (x1 - x0 + 1)" and ?ch = "nat (y1 - y0 + 1)"
  let ?z = "\<lambda>y x. zero_RGBPixel"
  have cw: "?cw \<le> image_N" and ch: "?ch \<le> image_N"
    using x y grid by simp_all
  have fx: "\<And>b. b < ?cw \<Longrightarrow> nat x0 + b < image_N"
    and fy: "\<And>a. a < ?ch \<Longrightarrow> nat y0 + a < image_N"
    using x y grid by simp_all
  obtain temp where temp:
    "for_each (\<lambda>y. for_each (\<lambda>x. copy_pixel (Pixels img) (nat y0 + y) (nat x0 + x) y x) [0..<?cw])
       [0..<?ch] ?z = Some temp"
    and tv: "\<And>a b. temp a b = (if a < ?ch \<and> b < ?cw then Pixels img (nat y0 + a) (nat x0 + b) else ?z a b)"
    using copy_rows [OF ch cw, of "\<lambda>y. nat y0 + y" "\<lambda>x. nat x0 + x" "Pixels img" ?z] fx fy
    by auto
  let ?black = "fold (\<lambda>y. fold (\<lambda>x px. px(y := (px y)(x := \<lparr>RGBPixel.R = 0, G = 0, B = 0\<rparr>))) [0..<image_N])
                  [0..<image_N] (Pixels img)"
  have lt: "\<And>a. a < ?ch \<Longrightarrow> a < image_N" "\<And>b. b < ?cw \<Longrightarrow> b < image_N"
    using cw ch by simp_all
  obtain moved where moved:
    "for_each (\<lambda>y. for_each (\<lambda>x. copy_pixel temp y x y x) [0..<?cw]) [0..<?ch] ?black = Some moved"
    and mv: "\<And>a b. moved a b = (if a < ?ch \<and> b < ?cw then temp a b else ?black a b)"
    using copy_rows [OF ch cw, of "\<lambda>y. y" "\<lambda>x. x" temp ?black] lt
    by auto
  let ?img' = "meta_set ''height'' (MInt (y1 - y0 + 1))
                 (meta_set ''width'' (MInt (x1 - x0 + 1)) (img\<lparr>Pixels := moved\<rparr>))"
  have run: "Crop img x0 y0 x1 y1 = Some (?img', None)"
    using x y temp moved by (simp add: Crop_def w h)
  have px: "Pixels ?img' = moved"
    by (simp add: meta_set_def)
  have inch: "\<And>a. (a < ?ch) = (int a \<le> y1 - y0)" and incw: "\<And>b. (b < ?cw) = (int b \<le> x1 - x0)"
    using x y by auto
  have pixels: "\<forall>a b. Pixels ?img' a b =
              (if a < image_N \<and> b < image_N
               then (if int a \<le> y1 - y0 \<and> int b \<le> x1 - x0
                     then Pixels img (nat y0 + a) (nat x0 + b)
                     else \<lparr>RGBPixel.R = 0, G = 0, B = 0\<rparr>)
               else Pixels img a b)"
    using lt by (auto simp: px mv tv fill_rows inch incw)
  have nn: "M (img\<lparr>Pixels := moved\<rparr>) \<noteq> None"
    using w by (auto simp: meta_int_def split: option.splits)
  have meta: "meta_int ?img' ''width'' = Some (x1 - x0 + 1)" "meta_int ?img' ''height'' = Some (y1 - y0 + 1)"
    using nn by (simp_all add: meta_int_meta_set M_meta_set_not_None)
  show ?thesis
    using run pixels meta by blast
qed

lemma Crop_keeps_dims_within_grid:
  assumes "dims_within_grid img" and "Crop img x0 y0 x1 y1 = Some (img', e)"
  shows "dims_within_grid img'"
proof (cases e)
  case (Some err)
  then have "img' = img"
    using assms(2)
    by (auto simp: Crop_def Let_def split: option.splits if_splits Option.bind_splits)
  then show ?thesis using assms(1) by simp
next
  case None
  then obtain w h where w: "meta_int img ''width'' = Some w" and h: "meta_int img ''height'' = Some h"
    and ok: "0 \<le> x0" "x0 \<le> x1" "x1 < w" "0 \<le> y0" "y0 \<le> y1" "y1 < h"
    using assms(2)
    by (auto simp: Crop_def Let_def split: option.splits if_splits)
  have grid: "w \<le> int image_N" "h \<le> int image_N"
    using assms(1) w h by (simp_all add: dims_within_grid_def)
  obtain img'' where "Crop img x0 y0 x1 y1 = Some (img'', None)"
    and "meta_int img'' ''width'' = Some (x1 - x0 + 1)" "meta_int img'' ''height'' = Some (y1 - y0 + 1)"
    using Crop_valid [OF w h ok grid] by blast
  then have "meta_int img' ''width'' = Some (x1 - x0 + 1)" "meta_int img' ''height'' = Some (y1 - y0 + 1)"
    using assms(2) by simp_all
  then show ?thesis
    using ok grid by (simp add: dims_within_grid_def)
qed

subsection \<open>The all-white image, printing, and backends that differ in one answer\<close>

lemma M_SetPixel: "M (SetPixel img x y c) = M img"
  by (simp add: SetPixel_def)

lemma M_fold_SetPixel_row:
  "M (fold (\<lambda>y img. SetPixel img x (g y) c) ys img) = M img"
  by (induction ys arbitrary: img) (simp_all add: M_SetPixel)

lemma M_fold_SetPixel:
  "M (fold (\<lambda>x. fold (\<lambda>y img. SetPixel img (f x) (g y) c) ys) xs img) = M img"
  by (induction xs arbitrary: img) (simp_all add: M_fold_SetPixel_row)

lemma M_AllWhiteImage:
  "M AllWhiteImage =
     Some [(''Author'', MString ''John Doe''), (''N'', MInt 16), (''height'', MInt 16),
           (''width'', MInt 16)]"
  by (simp add: AllWhiteImage_def Let_def meta_set_def M_fold_SetPixel NewImage_def image_N_def)

lemma meta_int_AllWhiteImage:
  "meta_int AllWhiteImage ''width'' = Some (int image_N)"
  "meta_int AllWhiteImage ''height'' = Some (int image_N)"
  by (simp_all add: meta_int_def M_AllWhiteImage image_N_def)

lemma dims_within_grid_AllWhiteImage: "dims_within_grid AllWhiteImage"
  by (simp add: dims_within_grid_def meta_int_AllWhiteImage)

lemma json_Marshal_update [simp]:
  "json_Marshal (be\<lparr>groth16_Verify := v\<rparr>) img = json_Marshal be img"
  by (simp add: json_Marshal_def cong: option.case_cong)

lemma ToBigEndian_update [simp]:
  "ToBigEndian (be\<lparr>groth16_Verify := v\<rparr>) img = ToBigEndian be img"
  by (simp add: ToBigEndian_def ToByte_def cong: option.case_cong)

lemma Sign_update [simp]:
  "Sign (be\<lparr>groth16_Verify := v\<rparr>) img = Sign be img"
  by (simp add: Sign_def cong: option.case_cong)

lemma prove_circuit_update [simp]:
  "prove_circuit (be\<lparr>groth16_Verify := v\<rparr>) pk c = prove_circuit be pk c"
  by (simp add: prove_circuit_def cong: option.case_cong)

lemma those_map_Some:
  "(\<And>x. x \<in> set xs \<Longrightarrow> f x \<noteq> None) \<Longrightarrow> those (map f xs) \<noteq> None"
  by (induction xs) (auto split: option.splits)

lemma ToByte_prints_nothing:
  assumes "\<And>k v. json_member be k v \<noteq> None"
  shows "snd (ToByte be img) = []"
proof (cases "M img")
  case None
  then show ?thesis by (simp add: ToByte_def json_Marshal_def Let_def)
next
  case (Some m)
  have "those (map (\<lambda>(k, v). json_member be k v) (sort_key fst m)) \<noteq> None"
    using assms by (intro those_map_Some) (simp add: case_prod_beta)
  then obtain ms where "those (map (\<lambda>(k, v). json_member be k v) (sort_key fst m)) = Some ms"
    by blast
  then show ?thesis
    by (simp add: ToByte_def json_Marshal_def Let_def Some)
qed

lemma ToBigEndian_prints_nothing:
  assumes "\<And>k v. json_member be k v \<noteq> None"
  shows "snd (ToBigEndian be img) = []"
  using ToByte_prints_nothing [OF assms, of img]
  by (simp add: ToBigEndian_def case_prod_beta)

lemma Crop_AllWhiteImage_whole_grid:
  "Crop AllWhiteImage 0 0 (int image_N - 1) (int image_N - 1) = Some (AllWhiteImage, None)"
  by (simp add: Crop_whole_grid meta_int_AllWhiteImage)

lemma stub_json_member: "json_member stub_backend k v \<noteq> None"
  by (simp add: stub_backend_def)

lemma rejecting_json_member: "json_member rejecting_backend k v \<noteq> None"
  by (simp add: rejecting_backend_def stub_backend_def)

subsection \<open>The two branches of the prover\<close>

lemma prove_circuit_proof:
  "map_option fst (prove_circuit be pk_pcd c) =
     map_option (\<lambda>w. (fst (groth16_Prove be (fst (frontend_Compile be c)) (ProvingKey pk_pcd) (Some w)),
                       fst (Witness_Public be w)))
       (fst (frontend_NewWitness be c))"
  by (simp add: prove_circuit_def case_prod_beta Let_def split: option.splits)

lemma prove_circuit_calls:
  "prove_circuit be pk_pcd c = Some (r, log) \<Longrightarrow>
     Call ''frontend.NewWitness'' \<in> set log \<and> Call ''frontend.Compile'' \<in> set log \<and>
     Call ''groth16.Prove'' \<in> set log"
  by (auto simp: prove_circuit_def case_prod_beta Let_def split: option.splits)

lemma Sign_image_bytes:
  "Sign be img = Some ((sig, pubk, sk, bs), log) \<Longrightarrow>
     bs = fst (ToBigEndian be img) \<and> sig = fst (Signer_Sign be sk bs) \<and>
     pubk = Signer_Public be sk \<and> fst (eddsa_New be) = Some sk \<and> Call ''Signer.Sign'' \<in> set log"
  by (auto simp: Sign_def case_prod_beta Let_def split: option.splits)

lemma Sign_returns:
  "fst (eddsa_New be) = Some sk \<Longrightarrow> \<exists>r. Sign be img = Some r"
  by (simp add: Sign_def case_prod_beta Let_def)

lemma Prover_base_case:
  assumes "Proof.PCD_proof proof_in = None" and "PK_PP.PublicKey pk_pcd = Some k"
  shows "map_option fst (Prover be pk_pcd vk proof_in t) =
     (let img = Image (Z proof_in);
          c = Crop_Circuit
                \<lparr>CropCircuit.PublicKey = PublicKey_Bytes be k,
                 ImageSignature = Proof.ImageSignature proof_in,
                 ImageBytes = BytesV (fst (ToBigEndian be img)),
                 FrImage = ToFrontendImage img,
                 CroppedImage_in = ToFrontendImage img,
                 Params = FrTransformation.Params (ToFr t)\<rparr>
      in map_option
           (\<lambda>w. \<lparr>PCD_proof = fst (groth16_Prove be (fst (frontend_Compile be c))
                                      (ProvingKey pk_pcd) (Some w)),
                  Z = Z proof_in,
                  ImageSignature = Proof.ImageSignature proof_in,
                  Public_Witness = fst (Witness_Public be w)\<rparr>)
           (fst (frontend_NewWitness be c)))"
  using assms
  by (simp add: Prover_def prove_circuit_def case_prod_beta Let_def split: option.splits)

lemma Prover_0_base_case:
  assumes "Proof_0.PCD_proof proof_in = None" and "PK_PP.PublicKey pk_pcd = Some k"
  shows "map_option fst (Prover_0 be pk_pcd z_in proof_in t) =
     (let c = Identity_Circuit
                \<lparr>IdentityCircuit.PublicKey = PublicKey_Bytes be k,
                 ImageSignature = Digital_Sig proof_in,
                 ImageBytes = BytesV (fst (ToBigEndian be (Image z_in)))\<rparr>
      in map_option
           (\<lambda>w. (\<lparr>Proof_0.PCD_proof = fst (groth16_Prove be (fst (frontend_Compile be c))
                                      (ProvingKey pk_pcd) (Some w)),
                   Z_in = z_in, Digital_Sig = [],
                   Public_Witness = fst (Witness_Public be w)\<rparr>, z_in))
           (fst (frontend_NewWitness be c)))"
  using assms
  by (auto simp add: Prover_0_def case_prod_beta Let_def split: Option.bind_splits)

lemma Prover_inductive:
  assumes "Proof.PCD_proof proof_in \<noteq> None"
    and "Transformation.T t = myTransformations_Crop"
    and "Crop (Image (Z proof_in)) (param t ''x0'') (param t ''y0'') (param t ''x1'') (param t ''y1'')
           = Some (img', crop_err)"
    and "Sign be img' = Some ((sig, pubk, sk, bs), log_sign)"
    and "prove_circuit be pk_pcd
           (Crop_Circuit
              \<lparr>CropCircuit.PublicKey = PublicKey_Bytes be pubk, ImageSignature = sig,
               ImageBytes = BytesV bs, FrImage = ToFrontendImage (Image (Z proof_in)),
               CroppedImage_in = ToFrontendImage img',
               Params = FrTransformation.Params (ToFr t)\<rparr>) = Some ((proof_out, pw), log_prove)"
  shows "Prover be pk_pcd vk proof_in t =
           Some (\<lparr>PCD_proof = proof_out, Z = \<lparr>Image = img', PublicKey = Some pubk\<rparr>,
                  ImageSignature = [], Public_Witness = pw\<rparr>,
                 [Call ''groth16.Verify'',
                  (case groth16_Verify be (Proof.PCD_proof proof_in) vk (Proof.Public_Witness proof_in) of
                     Some e \<Rightarrow> Println ''FAIL: Image did not pass verification against PCD Proof.''
                   | None \<Rightarrow> Println ''SUCCESS: Image verified against PCD Proof.''),
                  Call ''Crop''] @ log_sign @ log_prove)"
proof -
  have ind: "(Proof.PCD_proof proof_in = None) = False"
    using assms(1) by simp
  have tag: "Transformation.T t \<noteq> myTransformations_Identity"
    using assms(2) by (simp add: myTransformations_Identity_def myTransformations_Crop_def)
  have p: "FrTransformation.Params (ToFr t) =
             \<lparr>N = NilV, X0 = IntV (param t ''x0''), Y0 = IntV (param t ''y0''),
              X1 = IntV (param t ''x1''), Y1 = IntV (param t ''y1'')\<rparr>"
    by (simp add: ToFr_def)
  show ?thesis
    using assms(3,4,5)
    by (simp add: Prover_def ind assms(2) p Let_def myTransformations_Identity_def
        myTransformations_Crop_def)
qed

subsection \<open>The inductive transition, step by step\<close>

lemma calls_append: "calls (xs @ ys) = calls xs @ calls ys"
  by (induction xs rule: calls.induct) simp_all

lemma calls_print_error: "calls (print_error e) = []"
  by (simp add: print_error_def split: option.splits)

lemma calls_print_error_in: "calls (print_error_in what e) = []"
  by (simp add: print_error_in_def split: option.splits)

lemma calls_ToByte: "calls (snd (ToByte be img)) = []"
  by (simp add: ToByte_def split: prod.splits option.splits)

lemma calls_ToBigEndian: "calls (snd (ToBigEndian be img)) = []"
  by (simp add: ToBigEndian_def case_prod_beta calls_ToByte)

lemma Sign_result:
  assumes "fst (eddsa_New be) = Some sk"
  shows "Sign be img =
    Some ((fst (Signer_Sign be sk (fst (ToBigEndian be img))), Signer_Public be sk, sk,
           fst (ToBigEndian be img)),
          (Call ''eddsa.New'' # print_error (snd (eddsa_New be))) @ snd (ToBigEndian be img) @
          (Call ''Signer.Sign'' # print_error (snd (Signer_Sign be sk (fst (ToBigEndian be img))))))"
  using assms by (simp add: Sign_def case_prod_beta Let_def)

lemma prove_circuit_result:
  assumes "fst (frontend_NewWitness be c) = Some w"
  shows "prove_circuit be pk_pcd c =
    Some ((fst (groth16_Prove be (fst (frontend_Compile be c)) (ProvingKey pk_pcd) (Some w)),
           fst (Witness_Public be w)),
          (Call ''frontend.NewWitness'' #
             print_error_in (''Error while creating Witness: '' @ [CHR 0x0A]) (snd (frontend_NewWitness be c))) @
          (Call ''frontend.Compile'' # print_error (snd (frontend_Compile be c))) @
          (Call ''groth16.Prove'' #
             print_error_in (''Error while creating Proof: '' @ [CHR 0x0A])
               (snd (groth16_Prove be (fst (frontend_Compile be c)) (ProvingKey pk_pcd) (Some w)))) @
          print_error_in (''Error while creating Public Witness: '' @ [CHR 0x0A])
            (snd (Witness_Public be w)))"
  using assms by (simp add: prove_circuit_def case_prod_beta Let_def)

lemma Prover_inductive_run:
  assumes "Proof.PCD_proof proof_in \<noteq> None"
    and "Transformation.T t = myTransformations_Crop \<or> Transformation.T t = myTransformations_Identity"
    and "crop_rectangle t = (x0, y0, x1, y1)"
    and "Crop (Image (Z proof_in)) x0 y0 x1 y1 = Some (img', crop_err)"
    and "Sign be img' = Some ((sig, pubk, sk, bs), log_sign)"
    and "prove_circuit be pk_pcd
           (Crop_Circuit
              \<lparr>CropCircuit.PublicKey = PublicKey_Bytes be pubk, ImageSignature = sig,
               ImageBytes = BytesV bs, FrImage = ToFrontendImage (Image (Z proof_in)),
               CroppedImage_in = ToFrontendImage img',
               Params = \<lparr>N = NilV, X0 = IntV x0, Y0 = IntV y0, X1 = IntV x1, Y1 = IntV y1\<rparr>\<rparr>)
         = Some ((proof_out, pw), log_prove)"
  shows "Prover be pk_pcd vk proof_in t =
           Some (\<lparr>PCD_proof = proof_out, Z = \<lparr>Image = img', PublicKey = Some pubk\<rparr>,
                  ImageSignature = [], Public_Witness = pw\<rparr>,
                 [Call ''groth16.Verify'',
                  (case groth16_Verify be (Proof.PCD_proof proof_in) vk (Proof.Public_Witness proof_in) of
                     Some e \<Rightarrow> Println ''FAIL: Image did not pass verification against PCD Proof.''
                   | None \<Rightarrow> Println ''SUCCESS: Image verified against PCD Proof.''),
                  Call ''Crop''] @ log_sign @ log_prove)"
proof -
  have ind: "(Proof.PCD_proof proof_in = None) = False"
    using assms(1) by simp
  show ?thesis
  proof (cases "Transformation.T t = myTransformations_Identity")
    case True
    then have r: "x0 = 0" "y0 = 0" "x1 = int image_N - 1" "y1 = int image_N - 1"
      using assms(3) by (simp_all add: crop_rectangle_def)
    show ?thesis
      using assms(4,5,6) unfolding r
      by (simp add: Prover_def ind True Let_def ToFr_def identity_params_def)
  next
    case False
    then have tag: "Transformation.T t = myTransformations_Crop"
      using assms(2) by simp
    have r: "x0 = param t ''x0''" "y0 = param t ''y0''" "x1 = param t ''x1''" "y1 = param t ''y1''"
      using assms(3) False by (simp_all add: crop_rectangle_def)
    show ?thesis
      using assms(4,5,6) False unfolding r
      by (simp add: Prover_def ind tag Let_def ToFr_def)
  qed
qed

lemma Prover_result_independent_of_verification:
  assumes "Proof.PCD_proof proof_in \<noteq> None"
    and "Transformation.T t = myTransformations_Crop \<or> Transformation.T t = myTransformations_Identity"
  shows "map_option (\<lambda>(p, log). (p, drop 2 log)) (Prover (be\<lparr>groth16_Verify := v\<rparr>) pk_pcd vk proof_in t)
       = map_option (\<lambda>(p, log). (p, drop 2 log)) (Prover be pk_pcd vk proof_in t)
     \<and> map_option (\<lambda>(p, log). take 2 log) (Prover be pk_pcd vk proof_in t)
       = map_option (\<lambda>r. [Call ''groth16.Verify'',
                           (case groth16_Verify be (Proof.PCD_proof proof_in) vk
                                     (Proof.Public_Witness proof_in) of
                              Some e \<Rightarrow> Println ''FAIL: Image did not pass verification against PCD Proof.''
                            | None \<Rightarrow> Println ''SUCCESS: Image verified against PCD Proof.'')])
           (Prover be pk_pcd vk proof_in t)"
proof -
  have ind: "(Proof.PCD_proof proof_in = None) = False"
    using assms(1) by simp
  show ?thesis
    using assms(2)
    by (simp add: Prover_def ind Let_def case_prod_beta map_option_bind comp_def
        cong: Option.bind_cong)
qed

subsection \<open>Concrete transformations and the generator\<close>

lemma param_inverted_crop_t:
  "param inverted_crop_t ''x0'' = 5" "param inverted_crop_t ''y0'' = 3"
  "param inverted_crop_t ''x1'' = 3" "param inverted_crop_t ''y1'' = 6"
  by (simp_all add: param_def inverted_crop_t_def)

lemma Generator_returns_setup_error:
  assumes "Generator be img t = Some ((pk, vk, sk, err), log)"
  shows "\<exists>c. err = snd (snd (groth16_Setup be (fst (frontend_Compile be c))))"
  using assms
  by (auto simp: Generator_def case_prod_beta Let_def split: Option.bind_splits)

lemma Prover_inductive_Identity_is_full_Crop:
  assumes "Proof.PCD_proof proof_in \<noteq> None"
    and "Transformation.T t = myTransformations_Identity"
  shows "Prover be pk_pcd vk proof_in t =
         Prover be pk_pcd vk proof_in
           \<lparr>Transformation.T = myTransformations_Crop,
            Params = [''x0'' \<mapsto> 0, ''y0'' \<mapsto> 0, ''x1'' \<mapsto> int image_N - 1, ''y1'' \<mapsto> int image_N - 1]\<rparr>"
proof -
  have ind: "(Proof.PCD_proof proof_in = None) = False"
    using assms(1) by simp
  show ?thesis
    by (simp add: Prover_def ind assms(2) Let_def ToFr_def identity_params_def param_def
        myTransformations_Identity_def myTransformations_Crop_def)
qed

lemma Generator_Identity_is_full_Crop:
  assumes "Transformation.T t = myTransformations_Identity"
  shows "Generator be img t =
         Generator be img
           \<lparr>Transformation.T = myTransformations_Crop,
            Params = [''x0'' \<mapsto> 0, ''y0'' \<mapsto> 0, ''x1'' \<mapsto> int image_N - 1, ''y1'' \<mapsto> int image_N - 1]\<rparr>"
  by (simp add: Generator_def assms Let_def ToFr_def identity_params_def param_def
      myTransformations_Identity_def myTransformations_Crop_def)

subsection \<open>Sorting the members of the metadata object\<close>

lemma filter_same_key:
  "distinct (map fst xs) \<Longrightarrow> e \<in> set xs \<Longrightarrow> filter (\<lambda>x. fst e = fst x) xs = [e]"
proof (induction xs)
  case Nil
  then show ?case by simp
next
  case (Cons a xs)
  show ?case
  proof (cases "e = a")
    case True
    have "fst a \<notin> fst ` set xs"
      using Cons.prems(1) by simp
    then have "\<And>x. x \<in> set xs \<Longrightarrow> fst a \<noteq> fst x"
      by (metis imageI)
    then have "filter (\<lambda>x. fst a = fst x) xs = []"
      by (simp add: filter_empty_conv)
    with True show ?thesis by simp
  next
    case False
    then have "e \<in> set xs" using Cons.prems(2) by simp
    moreover have "fst a \<notin> fst ` set xs"
      using Cons.prems(1) by simp
    then have "fst e \<noteq> fst a"
      using \<open>e \<in> set xs\<close> by (metis imageI)
    ultimately show ?thesis
      using Cons by simp
  qed
qed

lemma sort_key_fst_unique:
  assumes "distinct (map fst m)" and "distinct (map fst m')" and "set m = set m'"
  shows "sort_key fst m = sort_key fst m'"
proof (rule properties_for_sort_key)
  have "distinct m" "distinct m'"
    using assms(1,2) by (simp_all add: distinct_map)
  then have "mset m = mset m'"
    using assms(3) by (simp add: set_eq_iff_mset_eq_distinct)
  then show "mset (sort_key fst m') = mset m"
    by simp
  show "sorted (map fst (sort_key fst m'))"
    by simp
  fix k assume "k \<in> set (sort_key fst m')"
  then have k: "k \<in> set m'" "k \<in> set m"
    using assms(3) by simp_all
  have d: "distinct (map fst (sort_key fst m'))"
    using assms(2) by (simp add: distinct_map)
  have "filter (\<lambda>x. fst k = fst x) (sort_key fst m') = [k]"
    using d k(1) by (intro filter_same_key) simp_all
  moreover have "filter (\<lambda>x. fst k = fst x) m = [k]"
    using assms(1) k(2) by (rule filter_same_key)
  ultimately show "filter (\<lambda>x. fst k = fst x) (sort_key fst m') = filter (\<lambda>x. fst k = fst x) m"
    by simp
qed

lemma Verifier_message_is_canonical:
  "fr_Marshal (fr_SetBytes (fst (ToByte be img))) = fst (ToBigEndian be img)"
  by (simp add: ToBigEndian_def case_prod_beta)

lemma length_ToBigEndian: "length (fst (ToBigEndian be img)) = 32"
  by (simp add: ToBigEndian_def case_prod_beta fr_Marshal_def)

subsection \<open>The Crop circuit away from the origin\<close>

lemma array_index_wrapped:
  assumes "0 < b" and "b < 256"
  shows "array_index (api_Sub 0 b) = None"
proof -
  have "api_Sub 0 b = fr_modulus - b"
    using assms fr_modulus_gt_2 by (simp add: api_Sub_def zmod_zminus1_eq_if fr_modulus_def)
  moreover have "int image_N \<le> fr_modulus - b"
    using assms by (simp add: fr_modulus_def image_N_def)
  ultimately show ?thesis
    by (simp add: array_index_def)
qed

lemma CropFrontendImage_body_off_origin:
  assumes "0 < X (topLeft cropArea)" and "X (topLeft cropArea) < 256"
  shows "CropFrontendImage_body oldImage zero cropArea imageBounds y 0 newImage = None"
  using array_index_wrapped [OF assms]
  by (simp add: CropFrontendImage_body_def Let_def)

lemma CropFrontendImage_panics_on_crop_3_6:
  "CropFrontendImage crop_3_6_circuit = None"
proof -
  have n: "[0..<image_N] = 0 # [1..<image_N]"
    by (simp add: image_N_def upt_conv_Cons)
  show ?thesis
    by (simp add: CropFrontendImage_def crop_3_6_circuit_def n small_mod_fr
        CropFrontendImage_body_off_origin)
qed

subsection \<open>C1: area membership\<close>

text \<open>
  C1. The claim: \<^verbatim>\<open>InArea\<close> is true exactly on the points of the rectangle, bounds
  included; for the rectangle (2,2)-(5,5) it is true at (3,3) and at the corner (2,2).
  The code conjoins, for each bound, the test "the comparison is 0" with the test
  "the comparison is -1", which no comparison passes (\<open>InArea_always_zero\<close>): at the
  interior point (3,3) and at the corner (2,2) the signal is 0, that is false.
\<close>

theorem InArea_false_inside_rectangle:
  "InArea 3 3 area_2_5 = 0 \<and> InArea 2 2 area_2_5 = 0"
  by (simp add: InArea_always_zero)

subsection \<open>C2: the Crop circuit's destination coordinate\<close>

text \<open>
  C2. The claim: the pixel at grid coordinate (x, y) goes to (x - x0, y - y0), each
  coordinate from its own axis, and carries the input pixel when in the crop area and
  in bounds. The code computes both destination coordinates from \<open>x\<close>: with the crop
  area the full grid and an all-white image, the loop body at x = 1, y = 2 writes the
  pixel at [1][1], leaves [1][2] untouched (nil), and what it writes is black.
\<close>

theorem CropFrontendImage_body_reuses_x:
  "map_option (\<lambda>out. (out 1 1, out 1 2))
     (CropFrontendImage_body white_FrontendImage 0 full_area full_area 2 1 zero_FrontendImage)
   = Some (\<lparr>R = IntV 0, G = IntV 0, B = IntV 0\<rparr>, \<lparr>R = NilV, G = NilV, B = NilV\<rparr>)"
  by (simp add: CropFrontendImage_body_def Let_def InArea_always_zero api_Select_zero
      api_Sub_small full_area_def array_index_def image_N_def white_FrontendImage_def
      zero_FrontendImage_def)


subsection \<open>C3: the prover after a failed verification\<close>

text \<open>
  C3, as the claim states it, fails: on a backend that rejects every circuit proof, the
  inductive transition prints the FAIL line and then crops, signs, builds the witness,
  compiles and proves, and returns a proof object for the image.
\<close>

theorem Prover_proves_after_failed_verification:
  "Prover rejecting_backend stub_pk (Some 1) proven_proof identity_t =
     Some (\<lparr>PCD_proof = Some 1, Z = \<lparr>Image = AllWhiteImage, PublicKey = Some 7\<rparr>,
            ImageSignature = [], Public_Witness = Some 1\<rparr>,
           [Call ''groth16.Verify'',
            Println ''FAIL: Image did not pass verification against PCD Proof.'',
            Call ''Crop'', Call ''eddsa.New'', Call ''Signer.Sign'',
            Call ''frontend.NewWitness'', Call ''frontend.Compile'', Call ''groth16.Prove''])"
  by (simp add: Prover_def proven_proof_def identity_t_def ToFr_def identity_params_def
      Crop_AllWhiteImage_whole_grid Sign_def prove_circuit_def rejecting_backend_def
      stub_backend_def stub_pk_def print_error_def print_error_in_def case_prod_beta
      ToBigEndian_prints_nothing)

text \<open>
  C3, amended. In the inductive transition the incoming circuit proof is verified
  against the verifying key and its public witness and the outcome is printed: the first
  two events of the run are the call of \<^verbatim>\<open>groth16.Verify\<close> and the SUCCESS or FAIL
  line. A failure is not fatal. Whatever the outcome, where \<^verbatim>\<open>Crop\<close> returns an image
  \<open>img'\<close> for the transformation's rectangle, key generation gives a key \<open>sk\<close> and
  witness construction gives a witness \<open>w\<close>, the run goes on to call \<^verbatim>\<open>Crop\<close>,
  \<^verbatim>\<open>eddsa.New\<close>, \<^verbatim>\<open>Signer.Sign\<close>, \<^verbatim>\<open>frontend.NewWitness\<close>, \<^verbatim>\<open>frontend.Compile\<close> and
  \<^verbatim>\<open>groth16.Prove\<close>, in this order, and returns a proof object: its image is \<open>img'\<close>,
  its public key the new key's, its circuit proof what \<^verbatim>\<open>groth16.Prove\<close> gave for the
  Crop circuit \<open>c\<close> built from the input image, \<open>img'\<close>, the new signature over \<open>img'\<close>
  and the rectangle, and its public witness that of \<open>w\<close>.
\<close>

theorem Prover_goes_on_after_verification:
  assumes "Proof.PCD_proof proof_in \<noteq> None"
    and "Transformation.T t = myTransformations_Crop \<or> Transformation.T t = myTransformations_Identity"
    and "crop_rectangle t = (x0, y0, x1, y1)"
    and "Crop (Image (Z proof_in)) x0 y0 x1 y1 = Some (img', crop_err)"
    and "fst (eddsa_New be) = Some sk"
    and "c = Crop_Circuit
              \<lparr>CropCircuit.PublicKey = PublicKey_Bytes be (Signer_Public be sk),
               ImageSignature = fst (Signer_Sign be sk (fst (ToBigEndian be img'))),
               ImageBytes = BytesV (fst (ToBigEndian be img')),
               FrImage = ToFrontendImage (Image (Z proof_in)),
               CroppedImage_in = ToFrontendImage img',
               Params = \<lparr>N = NilV, X0 = IntV x0, Y0 = IntV y0, X1 = IntV x1, Y1 = IntV y1\<rparr>\<rparr>"
    and "fst (frontend_NewWitness be c) = Some w"
  shows "\<exists>log.
           Prover be pk_pcd vk proof_in t =
             Some (\<lparr>PCD_proof = fst (groth16_Prove be (fst (frontend_Compile be c))
                                        (ProvingKey pk_pcd) (Some w)),
                    Z = \<lparr>Image = img', PublicKey = Some (Signer_Public be sk)\<rparr>,
                    ImageSignature = [],
                    Public_Witness = fst (Witness_Public be w)\<rparr>, log) \<and>
           take 2 log =
             [Call ''groth16.Verify'',
              (case groth16_Verify be (Proof.PCD_proof proof_in) vk (Proof.Public_Witness proof_in) of
                 Some e \<Rightarrow> Println ''FAIL: Image did not pass verification against PCD Proof.''
               | None \<Rightarrow> Println ''SUCCESS: Image verified against PCD Proof.'')] \<and>
           calls log =
             [''groth16.Verify'', ''Crop'', ''eddsa.New'', ''Signer.Sign'',
              ''frontend.NewWitness'', ''frontend.Compile'', ''groth16.Prove'']"
proof -
  note sign = Sign_result [OF assms(5), of img']
  have wit: "fst (frontend_NewWitness be
      (Crop_Circuit
              \<lparr>CropCircuit.PublicKey = PublicKey_Bytes be (Signer_Public be sk),
               ImageSignature = fst (Signer_Sign be sk (fst (ToBigEndian be img'))),
               ImageBytes = BytesV (fst (ToBigEndian be img')),
               FrImage = ToFrontendImage (Image (Z proof_in)),
               CroppedImage_in = ToFrontendImage img',
               Params = \<lparr>N = NilV, X0 = IntV x0, Y0 = IntV y0, X1 = IntV x1, Y1 = IntV y1\<rparr>\<rparr>)) = Some w"
    using assms(6,7) by simp
  note prove = prove_circuit_result [OF wit, of pk_pcd]
  note run = Prover_inductive_run [OF assms(1,2,3,4) sign prove, of vk]
  show ?thesis
    unfolding run assms(6)
    by (cases "groth16_Verify be (Proof.PCD_proof proof_in) vk (Proof.Public_Witness proof_in)")
      (simp_all add: calls_append calls_print_error calls_print_error_in calls_ToBigEndian)
qed

theorem Prover_goes_on_after_verification_witness:
  "Proof.PCD_proof proven_proof \<noteq> None \<and>
   (Transformation.T identity_t = myTransformations_Crop \<or>
    Transformation.T identity_t = myTransformations_Identity) \<and>
   crop_rectangle identity_t = (0, 0, int image_N - 1, int image_N - 1) \<and>
   Crop (Image (Z proven_proof)) 0 0 (int image_N - 1) (int image_N - 1) = Some (AllWhiteImage, None) \<and>
   fst (eddsa_New rejecting_backend) = Some 7 \<and>
   (\<forall>c. fst (frontend_NewWitness rejecting_backend c) = Some 1) \<and>
   groth16_Verify rejecting_backend (Proof.PCD_proof proven_proof) (Some 1)
     (Proof.Public_Witness proven_proof) = Some ''invalid proof'' \<and>
   (\<exists>log.
      Prover rejecting_backend stub_pk (Some 1) proven_proof identity_t =
        Some (\<lparr>PCD_proof = Some 1, Z = \<lparr>Image = AllWhiteImage, PublicKey = Some 7\<rparr>,
               ImageSignature = [], Public_Witness = Some 1\<rparr>, log) \<and>
      take 2 log =
        [Call ''groth16.Verify'',
         Println ''FAIL: Image did not pass verification against PCD Proof.''] \<and>
      calls log =
        [''groth16.Verify'', ''Crop'', ''eddsa.New'', ''Signer.Sign'',
         ''frontend.NewWitness'', ''frontend.Compile'', ''groth16.Prove''])"
proof -
  have a: "Proof.PCD_proof proven_proof \<noteq> None"
    by (simp add: proven_proof_def)
  have b: "Transformation.T identity_t = myTransformations_Crop \<or>
           Transformation.T identity_t = myTransformations_Identity"
    by (simp add: identity_t_def)
  have r: "crop_rectangle identity_t = (0, 0, int image_N - 1, int image_N - 1)"
    by (simp add: crop_rectangle_def identity_t_def)
  have img: "Image (Z proven_proof) = AllWhiteImage"
    by (simp add: proven_proof_def)
  have cr: "Crop (Image (Z proven_proof)) 0 0 (int image_N - 1) (int image_N - 1)
              = Some (AllWhiteImage, None)"
    by (simp add: img Crop_AllWhiteImage_whole_grid)
  have k: "fst (eddsa_New rejecting_backend) = Some 7"
    by (simp add: rejecting_backend_def stub_backend_def)
  have w: "\<And>c. fst (frontend_NewWitness rejecting_backend c) = Some 1"
    by (simp add: rejecting_backend_def stub_backend_def)
  have v: "\<And>p vk pw. groth16_Verify rejecting_backend p vk pw = Some ''invalid proof''"
    by (simp add: rejecting_backend_def stub_backend_def)
  have g: "\<And>cs pk sw. fst (groth16_Prove rejecting_backend cs pk sw) = Some 1"
    and pub: "\<And>x. fst (Witness_Public rejecting_backend x) = Some x"
    and sp: "\<And>x. Signer_Public rejecting_backend x = x"
    by (simp_all add: rejecting_backend_def stub_backend_def)
  from Prover_goes_on_after_verification [OF a b r cr k refl w, where pk_pcd = stub_pk and vk = "Some 1"]
  have "\<exists>log.
      Prover rejecting_backend stub_pk (Some 1) proven_proof identity_t =
        Some (\<lparr>PCD_proof = Some 1, Z = \<lparr>Image = AllWhiteImage, PublicKey = Some 7\<rparr>,
               ImageSignature = [], Public_Witness = Some 1\<rparr>, log) \<and>
      take 2 log =
        [Call ''groth16.Verify'',
         Println ''FAIL: Image did not pass verification against PCD Proof.''] \<and>
      calls log =
        [''groth16.Verify'', ''Crop'', ''eddsa.New'', ''Signer.Sign'',
         ''frontend.NewWitness'', ''frontend.Compile'', ''groth16.Prove'']"
    by (simp add: v g pub sp)
  with a b r cr k w v show ?thesis by blast
qed

subsection \<open>C6: the verifier\<close>




subsection \<open>C10: an unknown transformation\<close>

text \<open>
  C10. When the input proof carries a circuit proof and the transformation's tag is
  neither Identity nor Crop, the prover calls nothing, prints nothing and returns the
  zero-valued proof.
\<close>

theorem Prover_unknown_transformation:
  assumes "Proof.PCD_proof proof_in \<noteq> None"
    and "Transformation.T t \<noteq> myTransformations_Identity"
    and "Transformation.T t \<noteq> myTransformations_Crop"
  shows "Prover be pk_pcd verifyingKey proof_in t = Some (zero_Proof, [])"
  using assms by (cases "Proof.PCD_proof proof_in") (simp_all add: Prover_def)

theorem Prover_unknown_transformation_witness:
  "Proof.PCD_proof proven_proof \<noteq> None \<and> Transformation.T unknown_t \<noteq> myTransformations_Identity
   \<and> Transformation.T unknown_t \<noteq> myTransformations_Crop
   \<and> Prover stub_backend stub_pk (Some 1) proven_proof unknown_t = Some (zero_Proof, [])"
  using Prover_unknown_transformation [of proven_proof unknown_t stub_backend stub_pk "Some 1"]
  by (simp add: proven_proof_def unknown_t_def myTransformations_Identity_def myTransformations_Crop_def)


subsection \<open>C4: invalid crop parameters\<close>

text \<open>
  C4, as the claim states it, fails: given a Crop with \<open>x0 = 5 > x1 = 3\<close> the prover
  calls \<^verbatim>\<open>Crop\<close>, drops the error it returns, and signs, compiles and proves; a proof
  object comes back.
\<close>

theorem Prover_proves_with_inverted_rectangle:
  "Prover stub_backend stub_pk (Some 1) proven_proof inverted_crop_t =
     Some (\<lparr>PCD_proof = Some 1, Z = \<lparr>Image = AllWhiteImage, PublicKey = Some 7\<rparr>,
            ImageSignature = [], Public_Witness = Some 1\<rparr>,
           [Call ''groth16.Verify'',
            Println ''SUCCESS: Image verified against PCD Proof.'',
            Call ''Crop'', Call ''eddsa.New'', Call ''Signer.Sign'',
            Call ''frontend.NewWitness'', Call ''frontend.Compile'', Call ''groth16.Prove''])"
proof -
  have crop: "Crop AllWhiteImage 5 3 3 6 = Some (AllWhiteImage, Some ''invalid crop dimensions: out of bounds'')"
    by (simp add: Crop_def meta_int_AllWhiteImage)
  have t: "Transformation.T inverted_crop_t = myTransformations_Crop"
    by (simp add: inverted_crop_t_def)
  show ?thesis
    by (simp add: Prover_def proven_proof_def t ToFr_def param_inverted_crop_t crop Let_def
        myTransformations_Identity_def myTransformations_Crop_def
        Sign_def prove_circuit_def stub_backend_def stub_pk_def print_error_def
        print_error_in_def case_prod_beta ToBigEndian_prints_nothing)
qed

text \<open>
  C4, amended. For every Crop transformation whose parameters are invalid (\<open>x0 > x1\<close>,
  \<open>y0 > y1\<close>, or a bound outside \<open>0 .. N - 1\<close>), on an image whose recorded width and
  height do not exceed the grid, \<^verbatim>\<open>Crop\<close> returns an error and leaves the image as it
  was. The prover does not look at that error: where key generation and witness
  construction give their objects, it returns a proof object whose image is the
  unchanged input image and whose circuit proof is what \<^verbatim>\<open>groth16.Prove\<close> gave for a
  Crop circuit with that image on both sides and the invalid parameters, after having
  called the compiler and the prover. The unchanged image is signed with the new key:
  the returned public key is the new key's, the circuit carries that key's bytes, the
  signature \<^verbatim>\<open>Signer.Sign\<close> gave over the image's big-endian encoding and that encoding,
  and the calls of the run are those of a valid crop, in the same order.
\<close>

theorem Prover_discards_Crop_error:
  assumes "Proof.PCD_proof proof_in \<noteq> None"
    and "Transformation.T t = myTransformations_Crop"
    and "dims_within_grid (Image (Z proof_in))"
    and "\<not> (0 \<le> param t ''x0'' \<and> param t ''x0'' \<le> param t ''x1'' \<and> param t ''x1'' < int image_N \<and>
            0 \<le> param t ''y0'' \<and> param t ''y0'' \<le> param t ''y1'' \<and> param t ''y1'' < int image_N)"
    and "fst (eddsa_New be) = Some sk"
    and "\<And>c. fst (frontend_NewWitness be c) \<noteq> None"
  shows "(\<exists>e. Crop (Image (Z proof_in)) (param t ''x0'') (param t ''y0'') (param t ''x1'') (param t ''y1'')
               = Some (Image (Z proof_in), Some e))
       \<and> (\<exists>p log c.
             Prover be pk_pcd vk proof_in t = Some (p, log) \<and>
             Image (Z p) = Image (Z proof_in) \<and>
             FrImage c = ToFrontendImage (Image (Z proof_in)) \<and>
             CroppedImage_in c = ToFrontendImage (Image (Z proof_in)) \<and>
             CropCircuit.Params c = FrTransformation.Params (ToFr t) \<and>
             Proof.PCD_proof p =
               fst (groth16_Prove be (fst (frontend_Compile be (Crop_Circuit c))) (ProvingKey pk_pcd)
                      (fst (frontend_NewWitness be (Crop_Circuit c)))) \<and>
             Call ''frontend.Compile'' \<in> set log \<and> Call ''groth16.Prove'' \<in> set log \<and>
             Z.PublicKey (Z p) = Some (Signer_Public be sk) \<and>
             CropCircuit.PublicKey c = PublicKey_Bytes be (Signer_Public be sk) \<and>
             CropCircuit.ImageSignature c =
               fst (Signer_Sign be sk (fst (ToBigEndian be (Image (Z proof_in))))) \<and>
             CropCircuit.ImageBytes c = BytesV (fst (ToBigEndian be (Image (Z proof_in)))) \<and>
             calls log =
               [''groth16.Verify'', ''Crop'', ''eddsa.New'', ''Signer.Sign'',
                ''frontend.NewWitness'', ''frontend.Compile'', ''groth16.Prove''])"
proof -
  let ?img = "Image (Z proof_in)"
  obtain e where crop: "Crop ?img (param t ''x0'') (param t ''y0'') (param t ''x1'') (param t ''y1'')
      = Some (?img, Some e)"
    using Crop_rejects [OF assms(3,4)] by blast
  have rect: "crop_rectangle t = (param t ''x0'', param t ''y0'', param t ''x1'', param t ''y1'')"
    using assms(2)
    by (simp add: crop_rectangle_def myTransformations_Identity_def myTransformations_Crop_def)
  have tag: "Transformation.T t = myTransformations_Crop \<or>
             Transformation.T t = myTransformations_Identity"
    using assms(2) by simp
  let ?c = "\<lparr>CropCircuit.PublicKey = PublicKey_Bytes be (Signer_Public be sk),
             ImageSignature = fst (Signer_Sign be sk (fst (ToBigEndian be ?img))),
             ImageBytes = BytesV (fst (ToBigEndian be ?img)),
             FrImage = ToFrontendImage ?img,
             CroppedImage_in = ToFrontendImage ?img,
             Params = \<lparr>N = NilV, X0 = IntV (param t ''x0''), Y0 = IntV (param t ''y0''),
                       X1 = IntV (param t ''x1''), Y1 = IntV (param t ''y1'')\<rparr>\<rparr>"
  have par: "CropCircuit.Params ?c = FrTransformation.Params (ToFr t)"
    by (simp add: ToFr_def)
  obtain w where w: "fst (frontend_NewWitness be (Crop_Circuit ?c)) = Some w"
    using assms(6) [of "Crop_Circuit ?c"] by blast
  note sign = Sign_result [OF assms(5), of ?img]
  note prove = prove_circuit_result [OF w, of pk_pcd]
  note run = Prover_inductive_run [OF assms(1) tag rect crop sign prove, of vk]
  let ?p = "\<lparr>PCD_proof = fst (groth16_Prove be (fst (frontend_Compile be (Crop_Circuit ?c)))
                                 (ProvingKey pk_pcd) (Some w)),
             Z = \<lparr>Image = ?img, PublicKey = Some (Signer_Public be sk)\<rparr>,
             ImageSignature = [], Public_Witness = fst (Witness_Public be w)\<rparr>"
  obtain log where log: "Prover be pk_pcd vk proof_in t = Some (?p, log)"
    and cl: "calls log =
               [''groth16.Verify'', ''Crop'', ''eddsa.New'', ''Signer.Sign'',
                ''frontend.NewWitness'', ''frontend.Compile'', ''groth16.Prove'']"
    and mem: "Call ''frontend.Compile'' \<in> set log" "Call ''groth16.Prove'' \<in> set log"
    unfolding run
    by (cases "groth16_Verify be (Proof.PCD_proof proof_in) vk (Proof.Public_Witness proof_in)")
      (simp_all add: calls_append calls_print_error calls_print_error_in calls_ToBigEndian)
  have "Prover be pk_pcd vk proof_in t = Some (?p, log) \<and>
             Image (Z ?p) = ?img \<and>
             FrImage ?c = ToFrontendImage ?img \<and>
             CroppedImage_in ?c = ToFrontendImage ?img \<and>
             CropCircuit.Params ?c = FrTransformation.Params (ToFr t) \<and>
             Proof.PCD_proof ?p =
               fst (groth16_Prove be (fst (frontend_Compile be (Crop_Circuit ?c))) (ProvingKey pk_pcd)
                      (fst (frontend_NewWitness be (Crop_Circuit ?c)))) \<and>
             Call ''frontend.Compile'' \<in> set log \<and> Call ''groth16.Prove'' \<in> set log \<and>
             Z.PublicKey (Z ?p) = Some (Signer_Public be sk) \<and>
             CropCircuit.PublicKey ?c = PublicKey_Bytes be (Signer_Public be sk) \<and>
             CropCircuit.ImageSignature ?c = fst (Signer_Sign be sk (fst (ToBigEndian be ?img))) \<and>
             CropCircuit.ImageBytes ?c = BytesV (fst (ToBigEndian be ?img)) \<and>
             calls log =
               [''groth16.Verify'', ''Crop'', ''eddsa.New'', ''Signer.Sign'',
                ''frontend.NewWitness'', ''frontend.Compile'', ''groth16.Prove'']"
    using log cl mem by (simp add: w ToFr_def)
  then have "\<exists>p log c.
             Prover be pk_pcd vk proof_in t = Some (p, log) \<and>
             Image (Z p) = ?img \<and>
             FrImage c = ToFrontendImage ?img \<and>
             CroppedImage_in c = ToFrontendImage ?img \<and>
             CropCircuit.Params c = FrTransformation.Params (ToFr t) \<and>
             Proof.PCD_proof p =
               fst (groth16_Prove be (fst (frontend_Compile be (Crop_Circuit c))) (ProvingKey pk_pcd)
                      (fst (frontend_NewWitness be (Crop_Circuit c)))) \<and>
             Call ''frontend.Compile'' \<in> set log \<and> Call ''groth16.Prove'' \<in> set log \<and>
             Z.PublicKey (Z p) = Some (Signer_Public be sk) \<and>
             CropCircuit.PublicKey c = PublicKey_Bytes be (Signer_Public be sk) \<and>
             CropCircuit.ImageSignature c = fst (Signer_Sign be sk (fst (ToBigEndian be ?img))) \<and>
             CropCircuit.ImageBytes c = BytesV (fst (ToBigEndian be ?img)) \<and>
             calls log =
               [''groth16.Verify'', ''Crop'', ''eddsa.New'', ''Signer.Sign'',
                ''frontend.NewWitness'', ''frontend.Compile'', ''groth16.Prove'']"
    by blast
  with crop show ?thesis by blast
qed

theorem Prover_discards_Crop_error_witness:
  "Proof.PCD_proof proven_proof \<noteq> None \<and>
   Transformation.T inverted_crop_t = myTransformations_Crop \<and>
   dims_within_grid (Image (Z proven_proof)) \<and>
   \<not> (0 \<le> param inverted_crop_t ''x0'' \<and> param inverted_crop_t ''x0'' \<le> param inverted_crop_t ''x1'' \<and>
      param inverted_crop_t ''x1'' < int image_N \<and> 0 \<le> param inverted_crop_t ''y0'' \<and>
      param inverted_crop_t ''y0'' \<le> param inverted_crop_t ''y1'' \<and>
      param inverted_crop_t ''y1'' < int image_N) \<and>
   fst (eddsa_New stub_backend) = Some 7 \<and>
   (\<forall>c. fst (frontend_NewWitness stub_backend c) \<noteq> None) \<and>
   (\<exists>e. Crop AllWhiteImage 5 3 3 6 = Some (AllWhiteImage, Some e)) \<and>
   (\<exists>p log. Prover stub_backend stub_pk (Some 1) proven_proof inverted_crop_t = Some (p, log) \<and>
       Image (Z p) = AllWhiteImage \<and> Call ''groth16.Prove'' \<in> set log)"
proof -
  have a: "Proof.PCD_proof proven_proof \<noteq> None"
    by (simp add: proven_proof_def)
  have b: "Transformation.T inverted_crop_t = myTransformations_Crop"
    by (simp add: inverted_crop_t_def)
  have c: "dims_within_grid (Image (Z proven_proof))"
    by (simp add: proven_proof_def dims_within_grid_AllWhiteImage)
  have d: "\<not> (0 \<le> param inverted_crop_t ''x0'' \<and> param inverted_crop_t ''x0'' \<le> param inverted_crop_t ''x1'' \<and>
      param inverted_crop_t ''x1'' < int image_N \<and> 0 \<le> param inverted_crop_t ''y0'' \<and>
      param inverted_crop_t ''y0'' \<le> param inverted_crop_t ''y1'' \<and>
      param inverted_crop_t ''y1'' < int image_N)"
    by (simp add: param_inverted_crop_t)
  have e: "fst (eddsa_New stub_backend) = Some 7"
    by (simp add: stub_backend_def)
  have f: "\<And>c. fst (frontend_NewWitness stub_backend c) \<noteq> None"
    by (simp add: stub_backend_def)
  have img: "Image (Z proven_proof) = AllWhiteImage"
    by (simp add: proven_proof_def)
  from Prover_discards_Crop_error [OF a b c d e f, where pk_pcd = stub_pk and vk = "Some 1"]
  have "(\<exists>e. Crop AllWhiteImage 5 3 3 6 = Some (AllWhiteImage, Some e)) \<and>
   (\<exists>p log. Prover stub_backend stub_pk (Some 1) proven_proof inverted_crop_t = Some (p, log) \<and>
       Image (Z p) = AllWhiteImage \<and> Call ''groth16.Prove'' \<in> set log)"
    unfolding img param_inverted_crop_t by blast
  with a b c d e f show ?thesis by blast
qed

subsection \<open>C5: the base case\<close>

text \<open>
  C5, as the claim states it, fails for the current prover: the witness it builds in the
  base case is that of a Crop circuit, not of the Identity circuit. On the backend whose
  witnesses tell the circuit they come from, the returned public witness is number 2.
\<close>

theorem Prover_base_case_uses_Crop_circuit:
  "map_option (\<lambda>r. Proof.Public_Witness (fst r))
     (Prover probing_backend stub_pk (Some 1) signed_proof identity_t) = Some (Some 2)"
proof -
  have "map_option (\<lambda>r. Proof.Public_Witness (fst r))
          (Prover probing_backend stub_pk (Some 1) signed_proof identity_t)
      = map_option Proof.Public_Witness
          (map_option fst (Prover probing_backend stub_pk (Some 1) signed_proof identity_t))"
    by (simp add: option.map_comp comp_def)
  also have "\<dots> = Some (Some 2)"
    by (simp add: Prover_base_case [where k = 7] signed_proof_def stub_pk_def
        probing_backend_def stub_backend_def)
  finally show ?thesis .
qed

text \<open>
  C5, amended. In the base case (no circuit proof in the input, a public key in the
  proving keys), the prover builds the witness of a circuit that holds the known
  signature, the public key and the big-endian encoding of the known image: in the
  current prover a Crop circuit with the image both as input and as cropped image, in the
  earlier prover the Identity circuit. Where the witness is built, it returns the circuit
  proof that \<^verbatim>\<open>groth16.Prove\<close> gives under the proving key, with the unchanged image; where
  it is not, the call panics.
\<close>

theorem Prover_base_case_proves_signature_circuit:
  assumes "Proof.PCD_proof proof_in = None"
    and "Proof_0.PCD_proof proof_0 = None"
    and "PK_PP.PublicKey pk_pcd = Some k"
  shows "(\<exists>params.
           map_option fst (Prover be pk_pcd vk proof_in t) =
             (let img = Image (Z proof_in);
                  c = Crop_Circuit
                        \<lparr>CropCircuit.PublicKey = PublicKey_Bytes be k,
                         ImageSignature = Proof.ImageSignature proof_in,
                         ImageBytes = BytesV (fst (ToBigEndian be img)),
                         FrImage = ToFrontendImage img,
                         CroppedImage_in = ToFrontendImage img,
                         Params = params\<rparr>
              in map_option
                   (\<lambda>w. \<lparr>PCD_proof = fst (groth16_Prove be (fst (frontend_Compile be c))
                                              (ProvingKey pk_pcd) (Some w)),
                          Z = Z proof_in,
                          ImageSignature = Proof.ImageSignature proof_in,
                          Public_Witness = fst (Witness_Public be w)\<rparr>)
                   (fst (frontend_NewWitness be c))))
       \<and> map_option fst (Prover_0 be pk_pcd z_in proof_0 t) =
             (let c = Identity_Circuit
                        \<lparr>IdentityCircuit.PublicKey = PublicKey_Bytes be k,
                         ImageSignature = Digital_Sig proof_0,
                         ImageBytes = BytesV (fst (ToBigEndian be (Image z_in)))\<rparr>
              in map_option
                   (\<lambda>w. (\<lparr>Proof_0.PCD_proof = fst (groth16_Prove be (fst (frontend_Compile be c))
                                              (ProvingKey pk_pcd) (Some w)),
                           Z_in = z_in, Digital_Sig = [],
                           Public_Witness = fst (Witness_Public be w)\<rparr>, z_in))
                   (fst (frontend_NewWitness be c)))"
  using Prover_base_case [OF assms(1,3)] Prover_0_base_case [OF assms(2,3)]
  by blast

theorem Prover_base_case_proves_signature_circuit_witness:
  "Proof.PCD_proof signed_proof = None \<and> Proof_0.PCD_proof signed_proof_0 = None \<and>
   PK_PP.PublicKey stub_pk = Some 7 \<and>
   map_option (\<lambda>(p, log). (Proof.PCD_proof p, Z p))
     (Prover stub_backend stub_pk (Some 1) signed_proof identity_t)
     = Some (Some 1, Z signed_proof) \<and>
   map_option (\<lambda>((p, z), log). (Proof_0.PCD_proof p, z))
     (Prover_0 stub_backend stub_pk (Z signed_proof) signed_proof_0 identity_t)
     = Some (Some 1, Z signed_proof)"
proof -
  have a: "Proof.PCD_proof signed_proof = None"
    by (simp add: signed_proof_def)
  have b: "Proof_0.PCD_proof signed_proof_0 = None"
    by (simp add: signed_proof_0_def)
  have c: "PK_PP.PublicKey stub_pk = Some 7"
    by (simp add: stub_pk_def)
  have w: "\<And>c. frontend_NewWitness stub_backend c = (Some 1, None)"
    and p: "\<And>cs pk w. groth16_Prove stub_backend cs pk w = (Some 1, None)"
    by (simp_all add: stub_backend_def)
  from Prover_base_case_proves_signature_circuit
    [OF a b c, where be = stub_backend and vk = "Some 1" and t = identity_t
       and z_in = "Z signed_proof"]
  have
    cur: "map_option fst (Prover stub_backend stub_pk (Some 1) signed_proof identity_t) =
            Some \<lparr>PCD_proof = Some 1, Z = Z signed_proof,
                  ImageSignature = Proof.ImageSignature signed_proof,
                  Public_Witness = fst (Witness_Public stub_backend 1)\<rparr>"
    and old: "map_option fst (Prover_0 stub_backend stub_pk (Z signed_proof) signed_proof_0 identity_t) =
            Some (\<lparr>Proof_0.PCD_proof = Some 1, Z_in = Z signed_proof, Digital_Sig = [],
                   Public_Witness = fst (Witness_Public stub_backend 1)\<rparr>, Z signed_proof)"
    by (auto simp: w p Let_def)
  from cur have "map_option (\<lambda>(p, log). (Proof.PCD_proof p, Z p))
     (Prover stub_backend stub_pk (Some 1) signed_proof identity_t) = Some (Some 1, Z signed_proof)"
    by (cases "Prover stub_backend stub_pk (Some 1) signed_proof identity_t") auto
  moreover from old have "map_option (\<lambda>((p, z), log). (Proof_0.PCD_proof p, z))
     (Prover_0 stub_backend stub_pk (Z signed_proof) signed_proof_0 identity_t)
     = Some (Some 1, Z signed_proof)"
    by (cases "Prover_0 stub_backend stub_pk (Z signed_proof) signed_proof_0 identity_t") auto
  ultimately show ?thesis
    using a b c by simp
qed

subsection \<open>C7: the Identity transformation\<close>

text \<open>
  C7. The claim: given the Identity transformation, the prover uses the rectangle
  (0, 0, N - 1, N - 1), and cropping to that rectangle gives back the image. The
  inductive branch does so (\<open>Prover_inductive_Identity_is_full_Crop\<close>,
  \<open>Crop_full_bounds_identity\<close>), and \<^verbatim>\<open>Generator\<close> sets the same rectangle
  (\<open>Generator_Identity_is_full_Crop\<close>). The base case does not: for the camera's call,
  with the Identity transformation and no parameters, the circuit it proves holds the
  image as input and as cropped image with the rectangle (0, 0, 0, 0).
\<close>

theorem Prover_base_case_Identity_params:
  "map_option fst (Prover be stub_pk vk signed_proof identity_t) =
     (let c = Crop_Circuit
                \<lparr>CropCircuit.PublicKey = PublicKey_Bytes be 7,
                 ImageSignature = ''signature'',
                 ImageBytes = BytesV (fst (ToBigEndian be AllWhiteImage)),
                 FrImage = ToFrontendImage AllWhiteImage,
                 CroppedImage_in = ToFrontendImage AllWhiteImage,
                 Params = \<lparr>N = NilV, X0 = IntV 0, Y0 = IntV 0, X1 = IntV 0, Y1 = IntV 0\<rparr>\<rparr>
      in map_option
           (\<lambda>w. \<lparr>PCD_proof = fst (groth16_Prove be (fst (frontend_Compile be c))
                                      (ProvingKey stub_pk) (Some w)),
                  Z = \<lparr>Image = AllWhiteImage, PublicKey = Some 7\<rparr>,
                  ImageSignature = ''signature'',
                  Public_Witness = fst (Witness_Public be w)\<rparr>)
           (fst (frontend_NewWitness be c)))"
  by (simp add: Prover_base_case [where k = 7] signed_proof_def stub_pk_def identity_t_def
      ToFr_def param_def Let_def)

subsection \<open>C8: errors of the generator\<close>

text \<open>
  C8. The claim: a compilation error or a set-up error is returned to the caller. The
  generator returns the error of the set-up only (\<open>Generator_returns_setup_error\<close>): when
  the compiler fails and the set-up then reports no error, the compilation error is
  printed, and keys come back with a nil error.
\<close>

theorem Generator_swallows_compile_error:
  "map_option (\<lambda>((pk, vk, sk, err), log). (ProvingKey pk, VerifyingKey vk, err, log))
     (Generator failing_compile_backend AllWhiteImage identity_t) =
   Some (Some 1, Some 1, None,
         [Call ''eddsa.New'', Call ''Signer.Sign'', Call ''frontend.Compile'',
          Println ''compile error'', Call ''groth16.Setup''])"
  by (simp add: Generator_def Sign_def failing_compile_backend_def stub_backend_def
      print_error_def case_prod_beta Let_def ToBigEndian_prints_nothing)


subsection \<open>C9: the canonical byte encoding\<close>

text \<open>
  C9. Serializing the same image again gives the same bytes. The encoding is a function
  of the pixel grid and of the metadata entries; the one thing that can differ between
  two passes over the same image is the order in which the entries of the Go map come
  up, and the encoder writes them sorted by key. So for two listings \<open>m\<close> and \<open>m'\<close> of
  the same entries (keys distinct), the JSON bytes with what is printed, and the 32
  big-endian bytes that are signed and given to the circuit, are the same.
\<close>

theorem image_encoding_independent_of_map_order:
  assumes "distinct (map fst m)" and "distinct (map fst m')" and "set m = set m'"
  shows "ToByte be (img\<lparr>M := Some m\<rparr>) = ToByte be (img\<lparr>M := Some m'\<rparr>) \<and>
         ToBigEndian be (img\<lparr>M := Some m\<rparr>) = ToBigEndian be (img\<lparr>M := Some m'\<rparr>)"
proof -
  have "json_Marshal be (img\<lparr>M := Some m\<rparr>) = json_Marshal be (img\<lparr>M := Some m'\<rparr>)"
    by (simp add: json_Marshal_def sort_key_fst_unique [OF assms])
  then show ?thesis
    by (simp add: ToBigEndian_def ToByte_def)
qed

theorem image_encoding_independent_of_map_order_witness:
  "distinct (map fst white_metadata) \<and> distinct (map fst (rev white_metadata)) \<and>
   set white_metadata = set (rev white_metadata) \<and>
   ToByte stub_backend (AllWhiteImage\<lparr>M := Some white_metadata\<rparr>)
     = ToByte stub_backend (AllWhiteImage\<lparr>M := Some (rev white_metadata)\<rparr>) \<and>
   ToBigEndian stub_backend (AllWhiteImage\<lparr>M := Some white_metadata\<rparr>)
     = ToBigEndian stub_backend (AllWhiteImage\<lparr>M := Some (rev white_metadata)\<rparr>)"
proof -
  have a: "distinct (map fst white_metadata)"
    by (simp add: white_metadata_def)
  have b: "distinct (map fst (rev white_metadata))"
    using a by (simp add: rev_map [symmetric])
  have c: "set white_metadata = set (rev white_metadata)"
    by simp
  show ?thesis
    using a b c image_encoding_independent_of_map_order [OF a b c, of stub_backend AllWhiteImage]
    by blast
qed

end
